theory Spec2Isabelle
  imports Main
begin

section \<open>JavaScript values met by \<open>src/server/actions/telegram.ts\<close>\<close>

text \<open>
  The bodies returned by the Telegram API are read with dynamic property access
  (\<^verbatim>\<open>data.result.username\<close>, \<^verbatim>\<open>msg?.message?.from?.username\<close>), so they are
  modelled as untyped JSON values. \<open>JUndefined\<close> is the value a missing property
  reads as. A JSON number is kept as an integer: the program only tests numbers for
  truthiness, and Telegram's identifiers are integers.
\<close>

datatype json =
    JUndefined
  | JNull
  | JBool bool
  | JNum int
  | JStr string
  | JArr "json list"
  | JObj "(string \<times> json) list"

text \<open>
  A thrown value: an instance of \<^verbatim>\<open>Error\<close> with its message, or any other value
  (\<^verbatim>\<open>err instanceof Error\<close> is false for it).
\<close>

datatype exn = JsError string | NonError

text \<open>
  The \<^verbatim>\<open>TypeError\<close> the engine raises when a property of \<^verbatim>\<open>undefined\<close> or
  \<^verbatim>\<open>null\<close> is read, or when a value that is not a function is called. Its message
  is engine specific and is not modelled.
\<close>

definition TypeError :: exn where
  "TypeError = JsError ''TypeError''"

text \<open>Truthiness, as tested by \<^verbatim>\<open>!v\<close> and \<^verbatim>\<open>v ? a : b\<close>.\<close>

fun truthy :: "json \<Rightarrow> bool" where
  "truthy JUndefined = False"
| "truthy JNull = False"
| "truthy (JBool b) = b"
| "truthy (JNum n) = (n \<noteq> 0)"
| "truthy (JStr s) = (s \<noteq> [])"
| "truthy (JArr xs) = True"
| "truthy (JObj kvs) = True"

text \<open>
  \<^verbatim>\<open>v.k\<close>: throws on \<^verbatim>\<open>undefined\<close> and \<^verbatim>\<open>null\<close>, looks the key up in an
  object, and is \<^verbatim>\<open>undefined\<close> on every other value for the keys this program reads
  (\<^verbatim>\<open>result\<close>, \<^verbatim>\<open>username\<close>, \<^verbatim>\<open>message\<close>, \<^verbatim>\<open>from\<close>, \<^verbatim>\<open>chat\<close>,
  \<^verbatim>\<open>id\<close>).
\<close>

fun get_prop :: "json \<Rightarrow> string \<Rightarrow> exn + json" where
  "get_prop JUndefined k = Inl TypeError"
| "get_prop JNull k = Inl TypeError"
| "get_prop (JObj kvs) k = Inr (case map_of kvs k of Some v \<Rightarrow> v | None \<Rightarrow> JUndefined)"
| "get_prop v k = Inr JUndefined"

text \<open>\<^verbatim>\<open>r.k\<close> where \<open>r\<close> is the outcome of an earlier property read.\<close>

definition then_prop :: "exn + json \<Rightarrow> string \<Rightarrow> exn + json" where
  "then_prop r k = (case r of Inl e \<Rightarrow> Inl e | Inr v \<Rightarrow> get_prop v k)"

text \<open>\<^verbatim>\<open>v?.k\<close>: \<^verbatim>\<open>undefined\<close> on \<^verbatim>\<open>undefined\<close> and \<^verbatim>\<open>null\<close>, never throws.\<close>

fun opt_prop :: "json \<Rightarrow> string \<Rightarrow> json" where
  "opt_prop JUndefined k = JUndefined"
| "opt_prop JNull k = JUndefined"
| "opt_prop (JObj kvs) k = (case map_of kvs k of Some v \<Rightarrow> v | None \<Rightarrow> JUndefined)"
| "opt_prop v k = JUndefined"

text \<open>
  \<^verbatim>\<open>v.find(p)\<close>: the first element of an array, in order, that satisfies \<open>p\<close>,
  \<^verbatim>\<open>undefined\<close> when there is none; a \<^verbatim>\<open>TypeError\<close> when \<open>v\<close> is not an array.
\<close>

fun array_find :: "(json \<Rightarrow> bool) \<Rightarrow> json \<Rightarrow> exn + json" where
  "array_find p (JArr xs) = Inr (case find p xs of Some x \<Rightarrow> x | None \<Rightarrow> JUndefined)"
| "array_find p v = Inl TypeError"

text \<open>
  An optional string (\<^verbatim>\<open>string | null | undefined\<close>) is falsy when it is absent or
  empty.
\<close>

fun truthy_str :: "string option \<Rightarrow> bool" where
  "truthy_str None = False"
| "truthy_str (Some s) = (s \<noteq> [])"

text \<open>\<^verbatim>\<open>a || b\<close> on optional strings.\<close>

definition js_or :: "string option \<Rightarrow> string option \<Rightarrow> string option" where
  "js_or a b = (if truthy_str a then a else b)"

text \<open>\<^verbatim>\<open>s.replaceAll('@', '')\<close>.\<close>

definition replaceAll_at :: "string \<Rightarrow> string" where
  "replaceAll_at s = filter (\<lambda>c. c \<noteq> CHR ''@'') s"

section \<open>Configuration, collaborators and effects\<close>

datatype url = GET_BOT_INFO_URL | GET_UPDATES_URL | SEND_MESSAGE_URL

text \<open>The object serialised by \<^verbatim>\<open>JSON.stringify({ chat_id: chatId, text })\<close>.\<close>

record send_body =
  chat_id :: json
  body_text :: string

text \<open>
  What the program reads of a \<^verbatim>\<open>fetch\<close> response: \<^verbatim>\<open>response.ok\<close> and the
  outcome of \<^verbatim>\<open>response.json()\<close>, which throws on a body that is not JSON.
\<close>

record response =
  ok :: bool
  json_body :: "exn + json"

text \<open>
  The calls that leave the process, in the order they are made: the session check, the
  persistence reads and writes, and the HTTP requests with the body they carry.
\<close>

datatype event =
    Auth
  | DbGet string
  | DbUpdate string string
  | Fetch url "send_body option"

text \<open>
  The environment of one invocation: the module constants read from
  \<^verbatim>\<open>process.env\<close>, and what each collaborator answers. \<open>auth_result\<close> is the
  outcome of \<^verbatim>\<open>verifyUser()\<close> followed by \<^verbatim>\<open>authResult?.data?.data?.id\<close>
  (\<open>None\<close> when the chain reads \<^verbatim>\<open>undefined\<close>); \<open>network\<close> is the outcome of
  \<^verbatim>\<open>fetch\<close>, \<open>Inl\<close> when the request itself fails; \<open>dbGet_error\<close> and
  \<open>dbUpdate_error\<close> are the errors the persistence layer raises, if any.
\<close>

record env =
  TELEGRAM_BOT_TOKEN :: "string option"
  TELEGRAM_BOT_USERNAME :: "string option"
  auth_result :: "exn + string option"
  network :: "url \<Rightarrow> send_body option \<Rightarrow> exn + response"
  dbGet_error :: "exn option"
  dbUpdate_error :: "exn option"

text \<open>
  The state that outlives an invocation: the user directory (user id to stored
  Telegram handle) and the log of external calls made so far.
\<close>

record state =
  db :: "string \<Rightarrow> string option"
  trace :: "event list"

text \<open>
  An \<^verbatim>\<open>async\<close> computation: it runs from a state to a returned value or a thrown
  one, and the state it leaves.
\<close>

type_synonym 'a io = "state \<Rightarrow> (exn + 'a) \<times> state"

definition ret :: "'a \<Rightarrow> 'a io" where
  "ret v = (\<lambda>s. (Inr v, s))"

definition throw :: "exn \<Rightarrow> 'a io" where
  "throw e = (\<lambda>s. (Inl e, s))"

definition of_result :: "exn + 'a \<Rightarrow> 'a io" where
  "of_result r = (\<lambda>s. (r, s))"

text \<open>\<^verbatim>\<open>const x = await m; f x\<close>: a throw in \<open>m\<close> skips \<open>f\<close>.\<close>

definition await :: "'a io \<Rightarrow> ('a \<Rightarrow> 'b io) \<Rightarrow> 'b io" where
  "await m f = (\<lambda>s. case m s of (Inl e, s') \<Rightarrow> (Inl e, s') | (Inr v, s') \<Rightarrow> f v s')"

text \<open>\<^verbatim>\<open>try { m } catch (err) { h err }\<close>.\<close>

definition try_catch :: "'a io \<Rightarrow> (exn \<Rightarrow> 'a io) \<Rightarrow> 'a io" where
  "try_catch m h = (\<lambda>s. case m s of (Inl e, s') \<Rightarrow> h e s' | (Inr v, s') \<Rightarrow> (Inr v, s'))"

definition record_event :: "event \<Rightarrow> state \<Rightarrow> state" where
  "record_event ev s = s\<lparr>trace := trace s @ [ev]\<rparr>"

text \<open>\<^verbatim>\<open>verifyUser()\<close> and the read of the user's id from its answer.\<close>

definition verifyUser :: "env \<Rightarrow> string option io" where
  "verifyUser e = (\<lambda>s. (auth_result e, record_event Auth s))"

definition fetch :: "env \<Rightarrow> url \<Rightarrow> send_body option \<Rightarrow> response io" where
  "fetch e u b = (\<lambda>s. (network e u b, record_event (Fetch u b) s))"

text \<open>
  Modelled from the spec: \<^verbatim>\<open>dbGetUserTelegramId\<close> of
  \<^verbatim>\<open>@/server/db/queries\<close> is not among the source files. The spec's persistence
  contract is \<^verbatim>\<open>get(userId) -> handle|absent\<close> over a key-value association from user
  identifier to stored handle; an error it raises reaches the caller.
\<close>

definition dbGetUserTelegramId :: "env \<Rightarrow> string \<Rightarrow> string option io" where
  "dbGetUserTelegramId e userId = (\<lambda>s.
     (case dbGet_error e of Some x \<Rightarrow> Inl x | None \<Rightarrow> Inr (db s userId),
      record_event (DbGet userId) s))"

text \<open>
  Modelled from the spec: \<^verbatim>\<open>dbUpdateUserTelegramId\<close> of
  \<^verbatim>\<open>@/server/db/queries\<close> is not among the source files. The spec's persistence
  contract is \<^verbatim>\<open>set(userId, handle) -> void\<close>: the handle becomes the stored value of
  that user. When it raises, nothing is stored.
\<close>

definition dbUpdateUserTelegramId :: "env \<Rightarrow> string \<Rightarrow> string \<Rightarrow> unit io" where
  "dbUpdateUserTelegramId e userId telegramId = (\<lambda>s.
     (case dbUpdate_error e of
        Some x \<Rightarrow> (Inl x, record_event (DbUpdate userId telegramId) s)
      | None \<Rightarrow> (Inr (),
          record_event (DbUpdate userId telegramId) (s\<lparr>db := (db s)(userId \<mapsto> telegramId)\<rparr>))))"

section \<open>The gateway functions\<close>

definition getBotUsername :: "env \<Rightarrow> json io" where
  "getBotUsername e =
     await (fetch e GET_BOT_INFO_URL None) (\<lambda>response.
       if \<not> ok response then throw (JsError ''Failed to retrieve bot info'')
       else await (of_result (json_body response)) (\<lambda>data.
         of_result (then_prop (get_prop data ''result'') ''username'')))"

text \<open>\<^verbatim>\<open>msg?.message?.from?.username\<close>, the value the scan compares with the handle.\<close>

definition sender_username :: "json \<Rightarrow> json" where
  "sender_username msg = opt_prop (opt_prop (opt_prop msg ''message'') ''from'') ''username''"

definition getChatIdByUsername :: "env \<Rightarrow> string \<Rightarrow> json io" where
  "getChatIdByUsername e username =
     await (fetch e GET_UPDATES_URL None) (\<lambda>response.
       if \<not> ok response then throw (JsError ''Failed to retrieve bot updates'')
       else await (of_result (json_body response)) (\<lambda>data.
         await (of_result (get_prop data ''result'')) (\<lambda>result.
           await (of_result (array_find (\<lambda>msg. sender_username msg = JStr username) result))
             (\<lambda>chat.
             if truthy chat
             then of_result (then_prop (then_prop (get_prop chat ''message'') ''chat'') ''id'')
             else ret JNull))))"

definition sendTelegramMessage :: "env \<Rightarrow> json \<Rightarrow> string \<Rightarrow> unit io" where
  "sendTelegramMessage e chatId text =
     await (fetch e SEND_MESSAGE_URL (Some \<lparr>chat_id = chatId, body_text = text\<rparr>)) (\<lambda>response.
       if \<not> ok response then throw (JsError ''Failed to send Telegram message'')
       else ret ())"

section \<open>The public operations\<close>

definition MISSING_USERNAME_ERROR :: string where
  "MISSING_USERNAME_ERROR = ''No saved Telegram username found''"

definition BOT_NOT_STARTED_ERROR :: string where
  "BOT_NOT_STARTED_ERROR = ''Bot not started yet''"

text \<open>
  \<^verbatim>\<open>CheckUserSetupResult\<close>. An optional string field left out of the object literal
  is \<open>None\<close>; \<open>s_chatId\<close> and \<open>s_botId\<close> hold what the gateway returned and are
  \<open>JUndefined\<close> when left out.
\<close>

record CheckUserSetupResult =
  s_success :: bool
  s_error :: "string option"
  s_userId :: "string option"
  s_username :: "string option"
  s_chatId :: json
  s_botId :: json

text \<open>\<^verbatim>\<open>TelegramActionData\<close>.\<close>

record TelegramActionData =
  d_success :: bool
  d_error :: "string option"
  d_botId :: json
  d_username :: "string option"

text \<open>\<^verbatim>\<open>ActionResponse<TelegramActionData>\<close> as the two actions build it.\<close>

record ActionResponse =
  a_success :: bool
  a_error :: "string option"
  a_data :: TelegramActionData

text \<open>
  The right-hand side of line 75,
  \<^verbatim>\<open>TELEGRAM_BOT_USERNAME ?? (await getBotUsername())\<close>: the configured bot username
  when there is one (an empty one included), the gateway's answer otherwise.
\<close>

definition resolveBotIdentity :: "env \<Rightarrow> json io" where
  "resolveBotIdentity e =
     (case TELEGRAM_BOT_USERNAME e of
        Some b \<Rightarrow> ret (JStr b)
      | None \<Rightarrow> getBotUsername e)"

definition checkUserTelegramSetup :: "env \<Rightarrow> string option \<Rightarrow> CheckUserSetupResult io" where
  "checkUserTelegramSetup e username =
     await (verifyUser e) (\<lambda>authId.
       case authId of
         None \<Rightarrow> ret \<lparr>s_success = False, s_error = Some ''UNAUTHORIZED'', s_userId = None,
                       s_username = None, s_chatId = JUndefined, s_botId = JUndefined\<rparr>
       | Some userId \<Rightarrow>
         if userId = [] then
           ret \<lparr>s_success = False, s_error = Some ''UNAUTHORIZED'', s_userId = None,
                 s_username = None, s_chatId = JUndefined, s_botId = JUndefined\<rparr>
         else
           await (resolveBotIdentity e) (\<lambda>botId.
           await (dbGetUserTelegramId e userId) (\<lambda>dbUsername.
             case js_or username dbUsername of
               None \<Rightarrow> ret \<lparr>s_success = False, s_error = Some MISSING_USERNAME_ERROR,
                             s_userId = Some userId, s_username = None,
                             s_chatId = JUndefined, s_botId = botId\<rparr>
             | Some finalUsername \<Rightarrow>
               if finalUsername = [] then
                 ret \<lparr>s_success = False, s_error = Some MISSING_USERNAME_ERROR,
                       s_userId = Some userId, s_username = None,
                       s_chatId = JUndefined, s_botId = botId\<rparr>
               else
                 let sanitizedUsername = replaceAll_at finalUsername in
                 await (getChatIdByUsername e sanitizedUsername) (\<lambda>chatId.
                   if \<not> truthy chatId then
                     ret \<lparr>s_success = False, s_error = Some BOT_NOT_STARTED_ERROR,
                           s_userId = Some userId, s_username = None,
                           s_chatId = JUndefined, s_botId = botId\<rparr>
                   else
                     await (if \<not> truthy_str dbUsername \<or> dbUsername \<noteq> Some sanitizedUsername
                            then dbUpdateUserTelegramId e userId sanitizedUsername
                            else ret ()) (\<lambda>_.
                       ret \<lparr>s_success = True, s_error = None, s_userId = Some userId,
                             s_username = Some sanitizedUsername, s_chatId = chatId,
                             s_botId = botId\<rparr>)))))"

text \<open>The message of a caught value: \<^verbatim>\<open>err instanceof Error ? err.message : dflt\<close>.\<close>

fun message_of :: "exn \<Rightarrow> string \<Rightarrow> string" where
  "message_of (JsError m) dflt = m"
| "message_of NonError dflt = dflt"

text \<open>
  The two actions are the handlers given to
  \<^verbatim>\<open>actionClient.schema(...).action(...)\<close>; the fields of \<^verbatim>\<open>parsedInput\<close> are
  their arguments, typed as the schemas say (\<^verbatim>\<open>username\<close> optional).
\<close>

definition verifyTelegramSetupAction :: "env \<Rightarrow> string option \<Rightarrow> ActionResponse io" where
  "verifyTelegramSetupAction e username =
     try_catch
       (await (checkUserTelegramSetup e username) (\<lambda>setup.
          if \<not> s_success setup then
            ret \<lparr>a_success = False, a_error = s_error setup,
                  a_data = \<lparr>d_success = False, d_error = s_error setup,
                             d_botId = s_botId setup, d_username = None\<rparr>\<rparr>
          else
            ret \<lparr>a_success = True, a_error = None,
                  a_data = \<lparr>d_success = True, d_error = None,
                             d_botId = JUndefined, d_username = None\<rparr>\<rparr>))
       (\<lambda>err.
          let msg = message_of err ''Verification failed'' in
          ret \<lparr>a_success = False, a_error = Some msg,
                a_data = \<lparr>d_success = False, d_error = Some msg,
                           d_botId = JUndefined, d_username = None\<rparr>\<rparr>)"

definition sendTelegramNotification :: "env \<Rightarrow> string option \<Rightarrow> string \<Rightarrow> ActionResponse io" where
  "sendTelegramNotification e username text =
     (if \<not> truthy_str (TELEGRAM_BOT_TOKEN e) then
        ret \<lparr>a_success = False, a_error = Some ''Telegram bot token not set'',
              a_data = \<lparr>d_success = False, d_error = None,
                         d_botId = JUndefined, d_username = None\<rparr>\<rparr>
      else
        try_catch
          (await (checkUserTelegramSetup e username) (\<lambda>setup.
             if \<not> s_success setup then
               ret \<lparr>a_success = False, a_error = s_error setup,
                     a_data = \<lparr>d_success = False, d_error = s_error setup,
                                d_botId = s_botId setup, d_username = None\<rparr>\<rparr>
             else
               await (sendTelegramMessage e (s_chatId setup) text) (\<lambda>_.
                 ret \<lparr>a_success = True, a_error = None,
                       a_data = \<lparr>d_success = True, d_error = None,
                                  d_botId = s_botId setup, d_username = None\<rparr>\<rparr>)))
          (\<lambda>err.
             let msg = message_of err ''Failed to send notification'' in
             ret \<lparr>a_success = False, a_error = Some msg,
                   a_data = \<lparr>d_success = False, d_error = Some msg,
                              d_botId = JUndefined, d_username = None\<rparr>\<rparr>))"

definition checkTelegramUsername :: "env \<Rightarrow> TelegramActionData io" where
  "checkTelegramUsername e =
     await (verifyUser e) (\<lambda>authId.
       case authId of
         None \<Rightarrow> ret \<lparr>d_success = False, d_error = Some ''UNAUTHORIZED'',
                       d_botId = JUndefined, d_username = None\<rparr>
       | Some userId \<Rightarrow>
         if userId = [] then
           ret \<lparr>d_success = False, d_error = Some ''UNAUTHORIZED'',
                 d_botId = JUndefined, d_username = None\<rparr>
         else
           await (dbGetUserTelegramId e userId) (\<lambda>username.
             if \<not> truthy_str username then
               ret \<lparr>d_success = False, d_error = Some MISSING_USERNAME_ERROR,
                     d_botId = JUndefined, d_username = None\<rparr>
             else
               ret \<lparr>d_success = True, d_error = None,
                     d_botId = JUndefined, d_username = username\<rparr>))"

section \<open>Concrete environments\<close>

text \<open>
  An update as the gateway lists it: a message from \<open>sender\<close> in the chat \<open>chat\<close>,
  \<^verbatim>\<open>{message: {from: {username: sender}, chat: {id: chat}}}\<close>.
\<close>

definition update_from :: "string \<Rightarrow> json \<Rightarrow> json" where
  "update_from sender chat =
     JObj [(''message'', JObj [(''from'', JObj [(''username'', JStr sender)]),
                               (''chat'', JObj [(''id'', chat)])])]"

text \<open>
  A gateway that answers every request with a 2xx response: the bot is
  \<^verbatim>\<open>aguera_bot\<close> and its update list is \<open>updates\<close>.
\<close>

definition gateway :: "json list \<Rightarrow> url \<Rightarrow> send_body option \<Rightarrow> exn + response" where
  "gateway updates u b =
     (case u of
        GET_BOT_INFO_URL \<Rightarrow>
          Inr \<lparr>ok = True,
                json_body = Inr (JObj [(''ok'', JBool True),
                                       (''result'', JObj [(''username'', JStr ''aguera_bot'')])])\<rparr>
      | GET_UPDATES_URL \<Rightarrow>
          Inr \<lparr>ok = True,
                json_body = Inr (JObj [(''ok'', JBool True), (''result'', JArr updates)])\<rparr>
      | SEND_MESSAGE_URL \<Rightarrow>
          Inr \<lparr>ok = True, json_body = Inr (JObj [(''ok'', JBool True)])\<rparr>)"

text \<open>A network on which every request fails before any response arrives.\<close>

definition unreachable :: "url \<Rightarrow> send_body option \<Rightarrow> exn + response" where
  "unreachable u b = Inl (JsError ''fetch failed'')"

text \<open>A gateway whose 2xx responses carry a body that is not JSON.\<close>

definition garbled :: "url \<Rightarrow> send_body option \<Rightarrow> exn + response" where
  "garbled u b = Inr \<lparr>ok = True, json_body = Inl (JsError ''Unexpected end of JSON input'')\<rparr>"

text \<open>
  An environment with a bot token, no configured bot username, the session \<open>session\<close>
  and the network \<open>net\<close>, in which persistence raises no error.
\<close>

definition environment ::
    "string option \<Rightarrow> (url \<Rightarrow> send_body option \<Rightarrow> exn + response) \<Rightarrow> env" where
  "environment session net =
     \<lparr>TELEGRAM_BOT_TOKEN = Some ''token'', TELEGRAM_BOT_USERNAME = None,
      auth_result = Inr session, network = net,
      dbGet_error = None, dbUpdate_error = None\<rparr>"

text \<open>A state with the given stored handles and no call made yet.\<close>

definition directory :: "(string \<times> string) list \<Rightarrow> state" where
  "directory handles = \<lparr>db = map_of handles, trace = []\<rparr>"

section \<open>Outcomes of the gateway functions\<close>

text \<open>
  What the gateway functions return depends on the environment only, not on the state
  they start from; these constants name those outcomes, read off a run from the empty
  state. \<open>bot_events\<close> is what resolving the bot identity adds to the log.
\<close>

definition bot_identity :: "env \<Rightarrow> exn + json" where
  "bot_identity e = fst (resolveBotIdentity e (directory []))"

definition bot_events :: "env \<Rightarrow> event list" where
  "bot_events e =
     (case TELEGRAM_BOT_USERNAME e of Some b \<Rightarrow> [] | None \<Rightarrow> [Fetch GET_BOT_INFO_URL None])"

definition chat_lookup :: "env \<Rightarrow> string \<Rightarrow> exn + json" where
  "chat_lookup e username = fst (getChatIdByUsername e username (directory []))"

definition send_outcome :: "env \<Rightarrow> json \<Rightarrow> string \<Rightarrow> exn + unit" where
  "send_outcome e chatId text = fst (sendTelegramMessage e chatId text (directory []))"

section \<open>The effective handle as the spec words it\<close>


section \<open>Running the model\<close>

lemmas io_defs = ret_def throw_def of_result_def await_def try_catch_def record_event_def
  verifyUser_def fetch_def dbGetUserTelegramId_def dbUpdateUserTelegramId_def

lemmas step_defs = ret_def throw_def of_result_def await_def try_catch_def record_event_def
  verifyUser_def dbGetUserTelegramId_def dbUpdateUserTelegramId_def

lemmas run_defs = checkUserTelegramSetup_def resolveBotIdentity_def getBotUsername_def
  getChatIdByUsername_def sendTelegramMessage_def sender_username_def then_prop_def js_or_def
  replaceAll_at_def Let_def BOT_NOT_STARTED_ERROR_def MISSING_USERNAME_ERROR_def

lemmas example_defs = update_from_def gateway_def unreachable_def environment_def directory_def

text \<open>
  Each gateway function makes exactly one request, whatever it returns, and what it
  returns does not depend on the state it starts from.
\<close>

lemma getBotUsername_state:
  "snd (getBotUsername e s) = s\<lparr>trace := trace s @ [Fetch GET_BOT_INFO_URL None]\<rparr>"
  by (simp add: getBotUsername_def io_defs split: sum.splits prod.splits)

lemma getBotUsername_value: "fst (getBotUsername e s) = fst (getBotUsername e s')"
  by (simp add: getBotUsername_def io_defs split: sum.splits prod.splits)

lemma resolveBotIdentity_run:
  "resolveBotIdentity e s = (bot_identity e, s\<lparr>trace := trace s @ bot_events e\<rparr>)"
proof (cases "TELEGRAM_BOT_USERNAME e")
  case None
  then show ?thesis
    using getBotUsername_value [of e s "directory []"] getBotUsername_state [of e s]
    by (simp add: resolveBotIdentity_def bot_identity_def bot_events_def prod_eq_iff)
next
  case (Some b)
  then show ?thesis
    by (simp add: resolveBotIdentity_def bot_identity_def bot_events_def ret_def)
qed

lemma getChatIdByUsername_run:
  "getChatIdByUsername e u s =
     (chat_lookup e u, s\<lparr>trace := trace s @ [Fetch GET_UPDATES_URL None]\<rparr>)"
  by (simp add: chat_lookup_def getChatIdByUsername_def io_defs prod_eq_iff
      split: sum.splits prod.splits)

lemma sendTelegramMessage_run:
  "sendTelegramMessage e c t s =
     (send_outcome e c t,
      s\<lparr>trace := trace s @ [Fetch SEND_MESSAGE_URL (Some \<lparr>chat_id = c, body_text = t\<rparr>)]\<rparr>)"
  by (simp add: send_outcome_def sendTelegramMessage_def io_defs prod_eq_iff
      split: sum.splits prod.splits)

lemmas run_simps = resolveBotIdentity_run getChatIdByUsername_run sendTelegramMessage_run

text \<open>A failure result of \<open>checkUserTelegramSetup\<close> always names its error.\<close>

lemma checkUserTelegramSetup_failure_error:
  "checkUserTelegramSetup e username s = (Inr r, s') \<Longrightarrow> \<not> s_success r \<Longrightarrow> s_error r \<noteq> None"
  by (auto simp add: checkUserTelegramSetup_def run_simps step_defs Let_def
      split: sum.splits option.splits if_splits)

text \<open>
  An update whose sender matched a handle is an object with a \<^verbatim>\<open>message\<close> object, so
  it is truthy and reading \<^verbatim>\<open>chat.message.chat\<close> of it does not throw.
\<close>

lemma sender_username_truthy: "sender_username m = JStr u \<Longrightarrow> truthy m"
  by (cases m) (simp_all add: sender_username_def)

lemma matched_chat_id:
  assumes match: "sender_username m = JStr u"
  shows "then_prop (then_prop (get_prop m ''message'') ''chat'') ''id'' =
     get_prop (opt_prop (opt_prop m ''message'') ''chat'') ''id''"
proof -
  from match obtain kvs where m: "m = JObj kvs"
    by (cases m) (simp_all add: sender_username_def)
  from match m obtain kvs' where msg: "opt_prop m ''message'' = JObj kvs'"
    by (cases "opt_prop m ''message''") (simp_all add: sender_username_def)
  from m msg show ?thesis
    by (simp add: then_prop_def)
qed

text \<open>The scan of a well-formed update list, by the first matching entry.\<close>

lemma chat_lookup_updates:
  assumes "network e GET_UPDATES_URL None = Inr resp" and "ok resp"
    and "json_body resp = Inr data" and "get_prop data ''result'' = Inr (JArr updates)"
  shows "chat_lookup e u =
     (case find (\<lambda>msg. sender_username msg = JStr u) updates of
        None \<Rightarrow> Inr JNull
      | Some m \<Rightarrow> get_prop (opt_prop (opt_prop m ''message'') ''chat'') ''id'')"
proof (cases "find (\<lambda>msg. sender_username msg = JStr u) updates")
  case None
  with assms show ?thesis
    by (simp add: chat_lookup_def getChatIdByUsername_def io_defs)
next
  case (Some m)
  then have match: "sender_username m = JStr u"
    by (auto simp add: find_Some_iff)
  from assms Some sender_username_truthy [OF match] matched_chat_id [OF match] show ?thesis
    by (simp add: chat_lookup_def getChatIdByUsername_def io_defs)
qed

lemma find_first_match:
  "\<forall>v\<in>set pre. \<not> P v \<Longrightarrow> P u \<Longrightarrow> find P (pre @ u # post) = Some u"
  by (induction pre) simp_all

lemma sender_update_from: "sender_username (update_from sender chat) = JStr sender"
  by (simp add: sender_username_def update_from_def)

lemma chat_id_update_from:
  "get_prop (opt_prop (opt_prop (update_from sender chat) ''message'') ''chat'') ''id'' = Inr chat"
  by (simp add: update_from_def)

lemma replaceAll_at_only_ats: "\<forall>c\<in>set h. c = CHR ''@'' \<Longrightarrow> replaceAll_at h = []"
  by (induction h) (simp_all add: replaceAll_at_def)

lemma appended_no_update:
  "\<forall>u t. DbUpdate u t \<notin> set evs \<Longrightarrow>
   \<exists>evs'. s\<lparr>trace := trace s @ evs\<rparr> = s\<lparr>trace := trace s @ evs'\<rparr> \<and>
          (\<forall>u t. DbUpdate u t \<notin> set evs')"
  by blast

section \<open>Concrete runs\<close>

lemma run_bob:
  "checkUserTelegramSetup (environment (Some ''u1'') (gateway [update_from ''bob'' (JStr ''123'')]))
      (Some ''@bob'') (directory []) =
   (Inr \<lparr>s_success = True, s_error = None, s_userId = Some ''u1'',
          s_username = Some ''bob'', s_chatId = JStr ''123'', s_botId = JStr ''aguera_bot''\<rparr>,
    \<lparr>db = [''u1'' \<mapsto> ''bob''],
     trace = [Auth, Fetch GET_BOT_INFO_URL None, DbGet ''u1'', Fetch GET_UPDATES_URL None,
              DbUpdate ''u1'' ''bob'']\<rparr>)"
  by (simp add: run_defs io_defs example_defs)

lemma run_unreachable:
  "checkUserTelegramSetup (environment (Some ''u1'') unreachable) None (directory []) =
   (Inl (JsError ''fetch failed''),
    \<lparr>db = Map.empty, trace = [Auth, Fetch GET_BOT_INFO_URL None]\<rparr>)"
  by (simp add: run_defs io_defs example_defs)


section \<open>Claims\<close>

subsection \<open>C1\<close>




subsection \<open>C2\<close>

text \<open>
  C2 as stated fails: without a session and without a bot credential,
  \<open>sendTelegramNotification\<close> answers ``Telegram bot token not set'', not
  ``UNAUTHORIZED'': the credential guard of line 123 comes before the session check.
\<close>

theorem unauthenticated_notify_counterexample:
  "auth_result ((environment None (gateway []))\<lparr>TELEGRAM_BOT_TOKEN := None\<rparr>) = Inr None \<and>
   sendTelegramNotification ((environment None (gateway []))\<lparr>TELEGRAM_BOT_TOKEN := None\<rparr>)
       None ''hello'' (directory []) =
     (Inr \<lparr>a_success = False, a_error = Some ''Telegram bot token not set'',
            a_data = \<lparr>d_success = False, d_error = None,
                       d_botId = JUndefined, d_username = None\<rparr>\<rparr>,
      directory []) \<and>
   ''Telegram bot token not set'' \<noteq> ''UNAUTHORIZED''"
  by (simp add: sendTelegramNotification_def ret_def environment_def)

text \<open>
  C2, amended: when the session check yields no user id (absent or empty),
  \<open>checkUserTelegramSetup\<close>, \<open>verifyTelegramSetupAction\<close> and
  \<open>checkTelegramUsername\<close> return the ``UNAUTHORIZED'' failure, and so does
  \<open>sendTelegramNotification\<close> when a bot credential is configured; without a
  credential it returns ``Telegram bot token not set''. In every case the only call
  logged is the session check itself, if any: no gateway request, no persistence read
  and no persistence write, and the user directory is unchanged.
\<close>

theorem unauthenticated_calls:
  assumes "auth_result e = Inr session" and "\<not> truthy_str session"
  shows
   "checkUserTelegramSetup e username s =
      (Inr \<lparr>s_success = False, s_error = Some ''UNAUTHORIZED'', s_userId = None,
             s_username = None, s_chatId = JUndefined, s_botId = JUndefined\<rparr>,
       s\<lparr>trace := trace s @ [Auth]\<rparr>) \<and>
    verifyTelegramSetupAction e username s =
      (Inr \<lparr>a_success = False, a_error = Some ''UNAUTHORIZED'',
             a_data = \<lparr>d_success = False, d_error = Some ''UNAUTHORIZED'',
                        d_botId = JUndefined, d_username = None\<rparr>\<rparr>,
       s\<lparr>trace := trace s @ [Auth]\<rparr>) \<and>
    checkTelegramUsername e s =
      (Inr \<lparr>d_success = False, d_error = Some ''UNAUTHORIZED'',
             d_botId = JUndefined, d_username = None\<rparr>,
       s\<lparr>trace := trace s @ [Auth]\<rparr>) \<and>
    sendTelegramNotification e username text s =
      (if truthy_str (TELEGRAM_BOT_TOKEN e) then
         (Inr \<lparr>a_success = False, a_error = Some ''UNAUTHORIZED'',
                a_data = \<lparr>d_success = False, d_error = Some ''UNAUTHORIZED'',
                           d_botId = JUndefined, d_username = None\<rparr>\<rparr>,
          s\<lparr>trace := trace s @ [Auth]\<rparr>)
       else
         (Inr \<lparr>a_success = False, a_error = Some ''Telegram bot token not set'',
                a_data = \<lparr>d_success = False, d_error = None,
                           d_botId = JUndefined, d_username = None\<rparr>\<rparr>,
          s))"
proof -
  have check: "checkUserTelegramSetup e username s =
      (Inr \<lparr>s_success = False, s_error = Some ''UNAUTHORIZED'', s_userId = None,
             s_username = None, s_chatId = JUndefined, s_botId = JUndefined\<rparr>,
       s\<lparr>trace := trace s @ [Auth]\<rparr>)"
    using assms by (cases session) (simp_all add: checkUserTelegramSetup_def io_defs)
  have verify: "verifyTelegramSetupAction e username s =
      (Inr \<lparr>a_success = False, a_error = Some ''UNAUTHORIZED'',
             a_data = \<lparr>d_success = False, d_error = Some ''UNAUTHORIZED'',
                        d_botId = JUndefined, d_username = None\<rparr>\<rparr>,
       s\<lparr>trace := trace s @ [Auth]\<rparr>)"
    by (simp add: verifyTelegramSetupAction_def try_catch_def await_def ret_def check)
  have lookup: "checkTelegramUsername e s =
      (Inr \<lparr>d_success = False, d_error = Some ''UNAUTHORIZED'',
             d_botId = JUndefined, d_username = None\<rparr>,
       s\<lparr>trace := trace s @ [Auth]\<rparr>)"
    using assms by (cases session) (simp_all add: checkTelegramUsername_def io_defs)
  have notify: "sendTelegramNotification e username text s =
      (if truthy_str (TELEGRAM_BOT_TOKEN e) then
         (Inr \<lparr>a_success = False, a_error = Some ''UNAUTHORIZED'',
                a_data = \<lparr>d_success = False, d_error = Some ''UNAUTHORIZED'',
                           d_botId = JUndefined, d_username = None\<rparr>\<rparr>,
          s\<lparr>trace := trace s @ [Auth]\<rparr>)
       else
         (Inr \<lparr>a_success = False, a_error = Some ''Telegram bot token not set'',
                a_data = \<lparr>d_success = False, d_error = None,
                           d_botId = JUndefined, d_username = None\<rparr>\<rparr>,
          s))"
    by (simp add: sendTelegramNotification_def try_catch_def await_def ret_def check)
  from check verify lookup notify show ?thesis by blast
qed

theorem unauthenticated_calls_witness:
  "auth_result (environment None unreachable) = Inr None \<and> \<not> truthy_str None \<and>
   checkUserTelegramSetup (environment None unreachable) (Some ''@bob'') (directory []) =
      (Inr \<lparr>s_success = False, s_error = Some ''UNAUTHORIZED'', s_userId = None,
             s_username = None, s_chatId = JUndefined, s_botId = JUndefined\<rparr>,
       \<lparr>db = Map.empty, trace = [Auth]\<rparr>) \<and>
   verifyTelegramSetupAction (environment None unreachable) (Some ''@bob'') (directory []) =
      (Inr \<lparr>a_success = False, a_error = Some ''UNAUTHORIZED'',
             a_data = \<lparr>d_success = False, d_error = Some ''UNAUTHORIZED'',
                        d_botId = JUndefined, d_username = None\<rparr>\<rparr>,
       \<lparr>db = Map.empty, trace = [Auth]\<rparr>) \<and>
   checkTelegramUsername (environment None unreachable) (directory []) =
      (Inr \<lparr>d_success = False, d_error = Some ''UNAUTHORIZED'',
             d_botId = JUndefined, d_username = None\<rparr>,
       \<lparr>db = Map.empty, trace = [Auth]\<rparr>) \<and>
   sendTelegramNotification (environment None unreachable) (Some ''@bob'') ''hello'' (directory []) =
      (Inr \<lparr>a_success = False, a_error = Some ''UNAUTHORIZED'',
             a_data = \<lparr>d_success = False, d_error = Some ''UNAUTHORIZED'',
                        d_botId = JUndefined, d_username = None\<rparr>\<rparr>,
       \<lparr>db = Map.empty, trace = [Auth]\<rparr>)"
proof -
  have session: "auth_result (environment None unreachable) = Inr None"
    by (simp add: environment_def)
  have token: "truthy_str (TELEGRAM_BOT_TOKEN (environment None unreachable))"
    by (simp add: environment_def)
  show ?thesis
    using unauthenticated_calls [OF session, of "Some ''@bob''" "directory []" "''hello''"]
      session token
    by (simp add: directory_def)
qed

subsection \<open>C3\<close>

text \<open>
  C3 as stated fails. \<open>checkUserTelegramSetup\<close> and \<open>checkTelegramUsername\<close> are
  exported and have no \<^verbatim>\<open>try\<close>: with no configured bot username and an
  unreachable gateway the failure of \<^verbatim>\<open>fetch\<close> leaves the first as a thrown
  error, and an error of the persistence read leaves the second. And the failure an
  action builds from a caught error carries no bot identifier even when one is
  available: with the bot username configured and the gateway unreachable,
  \<open>verifyTelegramSetupAction\<close> answers without it.
\<close>

theorem setup_throws_counterexample:
  "auth_result (environment (Some ''u1'') unreachable) = Inr (Some ''u1'') \<and>
   fst (checkUserTelegramSetup (environment (Some ''u1'') unreachable) None (directory [])) =
     Inl (JsError ''fetch failed'') \<and>
   fst (checkTelegramUsername
          ((environment (Some ''u1'') unreachable)\<lparr>dbGet_error := Some (JsError ''db down'')\<rparr>)
          (directory [])) =
     Inl (JsError ''db down'') \<and>
   bot_identity
     ((environment (Some ''u1'') unreachable)\<lparr>TELEGRAM_BOT_USERNAME := Some ''aguera_bot''\<rparr>) =
     Inr (JStr ''aguera_bot'') \<and>
   fst (verifyTelegramSetupAction
          ((environment (Some ''u1'') unreachable)\<lparr>TELEGRAM_BOT_USERNAME := Some ''aguera_bot''\<rparr>)
          (Some ''bob'') (directory [])) =
     Inr \<lparr>a_success = False, a_error = Some ''fetch failed'',
           a_data = \<lparr>d_success = False, d_error = Some ''fetch failed'',
                      d_botId = JUndefined, d_username = None\<rparr>\<rparr>"
proof -
  have "fst (checkTelegramUsername
          ((environment (Some ''u1'') unreachable)\<lparr>dbGet_error := Some (JsError ''db down'')\<rparr>)
          (directory [])) =
     Inl (JsError ''db down'')"
    by (simp add: checkTelegramUsername_def io_defs environment_def)
  moreover have "bot_identity
     ((environment (Some ''u1'') unreachable)\<lparr>TELEGRAM_BOT_USERNAME := Some ''aguera_bot''\<rparr>) =
     Inr (JStr ''aguera_bot'')"
    by (simp add: bot_identity_def resolveBotIdentity_def ret_def environment_def)
  moreover have "fst (verifyTelegramSetupAction
          ((environment (Some ''u1'') unreachable)\<lparr>TELEGRAM_BOT_USERNAME := Some ''aguera_bot''\<rparr>)
          (Some ''bob'') (directory [])) =
     Inr \<lparr>a_success = False, a_error = Some ''fetch failed'',
           a_data = \<lparr>d_success = False, d_error = Some ''fetch failed'',
                      d_botId = JUndefined, d_username = None\<rparr>\<rparr>"
    by (simp add: verifyTelegramSetupAction_def run_defs io_defs example_defs unreachable_def)
  ultimately show ?thesis
    using run_unreachable by (simp add: environment_def)
qed

text \<open>
  C3, amended: the two actions, \<open>verifyTelegramSetupAction\<close> and
  \<open>sendTelegramNotification\<close>, return a response for every input and every
  behaviour of the collaborators, and a response that is not a success carries an error
  message. An error thrown inside (by the session check, persistence or the gateway, in
  \<open>checkUserTelegramSetup\<close> or while sending) becomes the failure response whose
  message is the error's own, or the action's default text when the thrown value is not
  an \<^verbatim>\<open>Error\<close>; that response carries no bot identifier. A failure result of
  \<open>checkUserTelegramSetup\<close> is forwarded with its error and its bot identifier.
  \<open>checkUserTelegramSetup\<close> and \<open>checkTelegramUsername\<close> themselves catch nothing:
  an error of the session check leaves both as thrown, an error of the persistence read
  leaves \<open>checkTelegramUsername\<close> and, once the bot identity is resolved,
  \<open>checkUserTelegramSetup\<close>, and so do for \<open>checkUserTelegramSetup\<close> an error in
  resolving the bot identity, in the scan of the updates and in the persistence write.
\<close>

theorem actions_never_throw:
  "(\<exists>r. fst (verifyTelegramSetupAction e username s) = Inr r \<and>
        (\<not> a_success r \<longrightarrow> a_error r \<noteq> None) \<and>
        (\<forall>x. fst (checkUserTelegramSetup e username s) = Inl x \<longrightarrow>
           r = \<lparr>a_success = False, a_error = Some (message_of x ''Verification failed''),
                a_data = \<lparr>d_success = False,
                           d_error = Some (message_of x ''Verification failed''),
                           d_botId = JUndefined, d_username = None\<rparr>\<rparr>) \<and>
        (\<forall>setup. fst (checkUserTelegramSetup e username s) = Inr setup \<longrightarrow>
           \<not> s_success setup \<longrightarrow>
           r = \<lparr>a_success = False, a_error = s_error setup,
                a_data = \<lparr>d_success = False, d_error = s_error setup,
                           d_botId = s_botId setup, d_username = None\<rparr>\<rparr>)) \<and>
   (\<exists>r. fst (sendTelegramNotification e username text s) = Inr r \<and>
        (\<not> a_success r \<longrightarrow> a_error r \<noteq> None) \<and>
        (truthy_str (TELEGRAM_BOT_TOKEN e) \<longrightarrow>
          (\<forall>x. fst (checkUserTelegramSetup e username s) = Inl x \<longrightarrow>
             r = \<lparr>a_success = False,
                  a_error = Some (message_of x ''Failed to send notification''),
                  a_data = \<lparr>d_success = False,
                             d_error = Some (message_of x ''Failed to send notification''),
                             d_botId = JUndefined, d_username = None\<rparr>\<rparr>) \<and>
          (\<forall>setup. fst (checkUserTelegramSetup e username s) = Inr setup \<longrightarrow>
             \<not> s_success setup \<longrightarrow>
             r = \<lparr>a_success = False, a_error = s_error setup,
                  a_data = \<lparr>d_success = False, d_error = s_error setup,
                             d_botId = s_botId setup, d_username = None\<rparr>\<rparr>) \<and>
          (\<forall>setup s1 x. checkUserTelegramSetup e username s = (Inr setup, s1) \<longrightarrow>
             s_success setup \<longrightarrow>
             fst (sendTelegramMessage e (s_chatId setup) text s1) = Inl x \<longrightarrow>
             r = \<lparr>a_success = False,
                  a_error = Some (message_of x ''Failed to send notification''),
                  a_data = \<lparr>d_success = False,
                             d_error = Some (message_of x ''Failed to send notification''),
                             d_botId = JUndefined, d_username = None\<rparr>\<rparr>))) \<and>
   (\<forall>x. auth_result e = Inl x \<longrightarrow>
        fst (checkUserTelegramSetup e username s) = Inl x \<and>
        fst (checkTelegramUsername e s) = Inl x) \<and>
   (\<forall>uid x. auth_result e = Inr (Some uid) \<longrightarrow> uid \<noteq> [] \<longrightarrow>
        (bot_identity e = Inl x \<longrightarrow> fst (checkUserTelegramSetup e username s) = Inl x) \<and>
        (dbGet_error e = Some x \<longrightarrow>
           fst (checkTelegramUsername e s) = Inl x \<and>
           (\<forall>botId. bot_identity e = Inr botId \<longrightarrow>
              fst (checkUserTelegramSetup e username s) = Inl x)) \<and>
        (\<forall>botId h. bot_identity e = Inr botId \<longrightarrow> dbGet_error e = None \<longrightarrow>
           (if truthy_str username then username else db s uid) = Some h \<longrightarrow> h \<noteq> [] \<longrightarrow>
           (chat_lookup e (replaceAll_at h) = Inl x \<longrightarrow>
              fst (checkUserTelegramSetup e username s) = Inl x) \<and>
           (\<forall>c. chat_lookup e (replaceAll_at h) = Inr c \<longrightarrow> truthy c \<longrightarrow>
              \<not> truthy_str (db s uid) \<or> db s uid \<noteq> Some (replaceAll_at h) \<longrightarrow>
              dbUpdate_error e = Some x \<longrightarrow>
              fst (checkUserTelegramSetup e username s) = Inl x)))"
proof (intro conjI)
  obtain o1 s1 where run: "checkUserTelegramSetup e username s = (o1, s1)"
    by (cases "checkUserTelegramSetup e username s")
  show "\<exists>r. fst (verifyTelegramSetupAction e username s) = Inr r \<and>
        (\<not> a_success r \<longrightarrow> a_error r \<noteq> None) \<and>
        (\<forall>x. fst (checkUserTelegramSetup e username s) = Inl x \<longrightarrow>
           r = \<lparr>a_success = False, a_error = Some (message_of x ''Verification failed''),
                a_data = \<lparr>d_success = False,
                           d_error = Some (message_of x ''Verification failed''),
                           d_botId = JUndefined, d_username = None\<rparr>\<rparr>) \<and>
        (\<forall>setup. fst (checkUserTelegramSetup e username s) = Inr setup \<longrightarrow>
           \<not> s_success setup \<longrightarrow>
           r = \<lparr>a_success = False, a_error = s_error setup,
                a_data = \<lparr>d_success = False, d_error = s_error setup,
                           d_botId = s_botId setup, d_username = None\<rparr>\<rparr>)"
  proof (cases o1)
    case (Inl x)
    with run show ?thesis
      by (simp add: verifyTelegramSetupAction_def try_catch_def await_def ret_def Let_def)
  next
    case (Inr res)
    with run checkUserTelegramSetup_failure_error [of e username s res s1] show ?thesis
      by (simp add: verifyTelegramSetupAction_def try_catch_def await_def ret_def Let_def)
  qed
  show "\<exists>r. fst (sendTelegramNotification e username text s) = Inr r \<and>
        (\<not> a_success r \<longrightarrow> a_error r \<noteq> None) \<and>
        (truthy_str (TELEGRAM_BOT_TOKEN e) \<longrightarrow>
          (\<forall>x. fst (checkUserTelegramSetup e username s) = Inl x \<longrightarrow>
             r = \<lparr>a_success = False,
                  a_error = Some (message_of x ''Failed to send notification''),
                  a_data = \<lparr>d_success = False,
                             d_error = Some (message_of x ''Failed to send notification''),
                             d_botId = JUndefined, d_username = None\<rparr>\<rparr>) \<and>
          (\<forall>setup. fst (checkUserTelegramSetup e username s) = Inr setup \<longrightarrow>
             \<not> s_success setup \<longrightarrow>
             r = \<lparr>a_success = False, a_error = s_error setup,
                  a_data = \<lparr>d_success = False, d_error = s_error setup,
                             d_botId = s_botId setup, d_username = None\<rparr>\<rparr>) \<and>
          (\<forall>setup s1 x. checkUserTelegramSetup e username s = (Inr setup, s1) \<longrightarrow>
             s_success setup \<longrightarrow>
             fst (sendTelegramMessage e (s_chatId setup) text s1) = Inl x \<longrightarrow>
             r = \<lparr>a_success = False,
                  a_error = Some (message_of x ''Failed to send notification''),
                  a_data = \<lparr>d_success = False,
                             d_error = Some (message_of x ''Failed to send notification''),
                             d_botId = JUndefined, d_username = None\<rparr>\<rparr>))"
  proof (cases "truthy_str (TELEGRAM_BOT_TOKEN e)")
    case False
    then show ?thesis by (simp add: sendTelegramNotification_def ret_def)
  next
    case token: True
    show ?thesis
    proof (cases o1)
      case (Inl x)
      with run token show ?thesis
        by (simp add: sendTelegramNotification_def try_catch_def await_def ret_def Let_def)
    next
      case (Inr res)
      obtain o2 s2 where send: "sendTelegramMessage e (s_chatId res) text s1 = (o2, s2)"
        by (cases "sendTelegramMessage e (s_chatId res) text s1")
      from Inr run token send checkUserTelegramSetup_failure_error [of e username s res s1]
      show ?thesis
        by (cases o2)
           (simp_all add: sendTelegramNotification_def try_catch_def await_def ret_def Let_def)
    qed
  qed
  show "\<forall>x. auth_result e = Inl x \<longrightarrow>
        fst (checkUserTelegramSetup e username s) = Inl x \<and>
        fst (checkTelegramUsername e s) = Inl x"
    by (simp add: checkUserTelegramSetup_def checkTelegramUsername_def step_defs)
  show "\<forall>uid x. auth_result e = Inr (Some uid) \<longrightarrow> uid \<noteq> [] \<longrightarrow>
        (bot_identity e = Inl x \<longrightarrow> fst (checkUserTelegramSetup e username s) = Inl x) \<and>
        (dbGet_error e = Some x \<longrightarrow>
           fst (checkTelegramUsername e s) = Inl x \<and>
           (\<forall>botId. bot_identity e = Inr botId \<longrightarrow>
              fst (checkUserTelegramSetup e username s) = Inl x)) \<and>
        (\<forall>botId h. bot_identity e = Inr botId \<longrightarrow> dbGet_error e = None \<longrightarrow>
           (if truthy_str username then username else db s uid) = Some h \<longrightarrow> h \<noteq> [] \<longrightarrow>
           (chat_lookup e (replaceAll_at h) = Inl x \<longrightarrow>
              fst (checkUserTelegramSetup e username s) = Inl x) \<and>
           (\<forall>c. chat_lookup e (replaceAll_at h) = Inr c \<longrightarrow> truthy c \<longrightarrow>
              \<not> truthy_str (db s uid) \<or> db s uid \<noteq> Some (replaceAll_at h) \<longrightarrow>
              dbUpdate_error e = Some x \<longrightarrow>
              fst (checkUserTelegramSetup e username s) = Inl x))"
  proof (intro allI impI conjI)
    fix uid x
    assume "auth_result e = Inr (Some uid)" and "uid \<noteq> []" and "bot_identity e = Inl x"
    then show "fst (checkUserTelegramSetup e username s) = Inl x"
      by (simp add: checkUserTelegramSetup_def run_simps step_defs)
  next
    fix uid x
    assume "auth_result e = Inr (Some uid)" and "uid \<noteq> []" and "dbGet_error e = Some x"
    then show "fst (checkTelegramUsername e s) = Inl x"
      by (simp add: checkTelegramUsername_def step_defs)
  next
    fix uid x botId
    assume "auth_result e = Inr (Some uid)" and "uid \<noteq> []" and "dbGet_error e = Some x"
      and "bot_identity e = Inr botId"
    then show "fst (checkUserTelegramSetup e username s) = Inl x"
      by (simp add: checkUserTelegramSetup_def run_simps step_defs)
  next
    fix uid x botId h
    assume "auth_result e = Inr (Some uid)" and "uid \<noteq> []"
      and "bot_identity e = Inr botId" and "dbGet_error e = None"
      and "(if truthy_str username then username else db s uid) = Some h" and "h \<noteq> []"
      and "chat_lookup e (replaceAll_at h) = Inl x"
    moreover have "js_or username (db s uid) =
        (if truthy_str username then username else db s uid)"
      by (simp add: js_or_def)
    ultimately show "fst (checkUserTelegramSetup e username s) = Inl x"
      by (simp add: checkUserTelegramSetup_def run_simps step_defs Let_def)
  next
    fix uid x botId h c
    assume "auth_result e = Inr (Some uid)" and "uid \<noteq> []"
      and "bot_identity e = Inr botId" and "dbGet_error e = None"
      and "(if truthy_str username then username else db s uid) = Some h" and "h \<noteq> []"
      and "chat_lookup e (replaceAll_at h) = Inr c" and "truthy c"
      and "\<not> truthy_str (db s uid) \<or> db s uid \<noteq> Some (replaceAll_at h)"
      and "dbUpdate_error e = Some x"
    moreover have "js_or username (db s uid) =
        (if truthy_str username then username else db s uid)"
      by (simp add: js_or_def)
    ultimately show "fst (checkUserTelegramSetup e username s) = Inl x"
      by (simp add: checkUserTelegramSetup_def run_simps step_defs Let_def)
  qed
qed

theorem actions_never_throw_witness:
  "fst (checkUserTelegramSetup (environment (Some ''u1'') unreachable) None (directory [])) =
     Inl (JsError ''fetch failed'') \<and>
   truthy_str (TELEGRAM_BOT_TOKEN (environment (Some ''u1'') unreachable)) \<and>
   fst (verifyTelegramSetupAction (environment (Some ''u1'') unreachable) None (directory [])) =
     Inr \<lparr>a_success = False, a_error = Some ''fetch failed'',
           a_data = \<lparr>d_success = False, d_error = Some ''fetch failed'',
                      d_botId = JUndefined, d_username = None\<rparr>\<rparr> \<and>
   fst (sendTelegramNotification (environment (Some ''u1'') unreachable) None ''hello''
          (directory [])) =
     Inr \<lparr>a_success = False, a_error = Some ''fetch failed'',
           a_data = \<lparr>d_success = False, d_error = Some ''fetch failed'',
                      d_botId = JUndefined, d_username = None\<rparr>\<rparr> \<and>
   auth_result ((environment (Some ''u1'') unreachable)\<lparr>dbGet_error := Some (JsError ''db down'')\<rparr>) =
     Inr (Some ''u1'') \<and> ''u1'' \<noteq> [] \<and>
   dbGet_error ((environment (Some ''u1'') unreachable)\<lparr>dbGet_error := Some (JsError ''db down'')\<rparr>) =
     Some (JsError ''db down'') \<and>
   fst (checkTelegramUsername
          ((environment (Some ''u1'') unreachable)\<lparr>dbGet_error := Some (JsError ''db down'')\<rparr>)
          (directory [])) =
     Inl (JsError ''db down'') \<and>
   bot_identity (environment (Some ''u1'') unreachable) = Inl (JsError ''fetch failed'')"
proof -
  let ?down = "environment (Some ''u1'') unreachable"
  let ?nodb = "(environment (Some ''u1'') unreachable)\<lparr>dbGet_error := Some (JsError ''db down'')\<rparr>"
  have session: "auth_result ?down = Inr (Some ''u1'')"
    and token: "truthy_str (TELEGRAM_BOT_TOKEN ?down)"
    and session': "auth_result ?nodb = Inr (Some ''u1'')"
    and failing: "dbGet_error ?nodb = Some (JsError ''db down'')"
    by (simp_all add: environment_def)
  have uid: "''u1'' \<noteq> []" by simp
  have bot: "bot_identity ?down = Inl (JsError ''fetch failed'')"
    by (simp add: bot_identity_def resolveBotIdentity_def getBotUsername_def io_defs
        example_defs unreachable_def)
  from actions_never_throw [of ?down None "directory []" "''hello''"] session uid bot
  have thrown: "fst (checkUserTelegramSetup ?down None (directory [])) =
      Inl (JsError ''fetch failed'')"
    by blast
  from actions_never_throw [of ?nodb None "directory []" "''hello''"] session' uid failing
  have lookup: "fst (checkTelegramUsername ?nodb (directory [])) = Inl (JsError ''db down'')"
    by blast
  from thrown token actions_never_throw [of ?down None "directory []" "''hello''"]
  have "fst (verifyTelegramSetupAction ?down None (directory [])) =
     Inr \<lparr>a_success = False, a_error = Some ''fetch failed'',
           a_data = \<lparr>d_success = False, d_error = Some ''fetch failed'',
                      d_botId = JUndefined, d_username = None\<rparr>\<rparr> \<and>
   fst (sendTelegramNotification ?down None ''hello'' (directory [])) =
     Inr \<lparr>a_success = False, a_error = Some ''fetch failed'',
           a_data = \<lparr>d_success = False, d_error = Some ''fetch failed'',
                      d_botId = JUndefined, d_username = None\<rparr>\<rparr>"
    by auto
  with thrown token session' uid failing lookup bot show ?thesis
    by (intro conjI) simp_all
qed

subsection \<open>C4\<close>

text \<open>
  C4: \<open>checkUserTelegramSetup\<close> writes the stored handle only when the stored value
  is absent (the guard of line 90 counts an empty string as absent) or differs from the
  normalized handle. For an authenticated user whose stored handle is present and
  already equals the normalized effective handle, the run makes no persistence update,
  whatever the collaborators do, and leaves the user directory as it was: the state
  after the run is the state before it with events added to the log, none of them an
  update. So a run with \<^verbatim>\<open>"@alice"\<close> or \<^verbatim>\<open>"alice"\<close> once \<^verbatim>\<open>"alice"\<close> is
  stored changes nothing that is persisted.
\<close>

theorem unchanged_handle_not_rewritten:
  assumes "auth_result e = Inr (Some uid)" and "uid \<noteq> []"
    and "(if truthy_str username then username else db s uid) = Some h"
    and "db s uid = Some (replaceAll_at h)" and "replaceAll_at h \<noteq> []"
  shows "\<exists>evs. snd (checkUserTelegramSetup e username s) = s\<lparr>trace := trace s @ evs\<rparr> \<and>
               (\<forall>u t. DbUpdate u t \<notin> set evs)"
proof -
  from assms(3) have final: "js_or username (db s uid) = Some h"
    by (simp add: js_or_def)
  from assms(5) have h: "h \<noteq> []"
    by (auto simp add: replaceAll_at_def)
  have no_update: "\<forall>u t. DbUpdate u t \<notin> set (bot_events e)"
    by (simp add: bot_events_def split: option.splits)
  from assms(1,2,4,5) final h no_update show ?thesis
    by (auto simp add: checkUserTelegramSetup_def run_simps step_defs Let_def
        split: sum.splits option.splits intro!: appended_no_update)
qed

theorem unchanged_handle_not_rewritten_witness:
  "auth_result (environment (Some ''u1'') (gateway [update_from ''alice'' (JNum 7)])) =
     Inr (Some ''u1'') \<and> ''u1'' \<noteq> [] \<and>
   db (directory [(''u1'', ''alice'')]) ''u1'' = Some (replaceAll_at ''@alice'') \<and>
   db (directory [(''u1'', ''alice'')]) ''u1'' = Some (replaceAll_at ''alice'') \<and>
   replaceAll_at ''@alice'' \<noteq> [] \<and> replaceAll_at ''alice'' \<noteq> [] \<and>
   (\<exists>evs. snd (checkUserTelegramSetup
                 (environment (Some ''u1'') (gateway [update_from ''alice'' (JNum 7)]))
                 (Some ''@alice'') (directory [(''u1'', ''alice'')])) =
            (directory [(''u1'', ''alice'')])\<lparr>trace := evs\<rparr> \<and>
          (\<forall>u t. DbUpdate u t \<notin> set evs)) \<and>
   (\<exists>evs. snd (checkUserTelegramSetup
                 (environment (Some ''u1'') (gateway [update_from ''alice'' (JNum 7)]))
                 (Some ''alice'') (directory [(''u1'', ''alice'')])) =
            (directory [(''u1'', ''alice'')])\<lparr>trace := evs\<rparr> \<and>
          (\<forall>u t. DbUpdate u t \<notin> set evs))"
proof -
  have session:
    "auth_result (environment (Some ''u1'') (gateway [update_from ''alice'' (JNum 7)])) =
       Inr (Some ''u1'')"
    by (simp add: environment_def)
  have uid: "''u1'' \<noteq> []" by simp
  have stored_at: "db (directory [(''u1'', ''alice'')]) ''u1'' = Some (replaceAll_at ''@alice'')"
    and stored: "db (directory [(''u1'', ''alice'')]) ''u1'' = Some (replaceAll_at ''alice'')"
    and nonempty_at: "replaceAll_at ''@alice'' \<noteq> []"
    and nonempty: "replaceAll_at ''alice'' \<noteq> []"
    by (simp_all add: directory_def replaceAll_at_def)
  have no_log: "trace (directory [(''u1'', ''alice'')]) = []"
    by (simp add: directory_def)
  have with_at:
    "(if truthy_str (Some ''@alice'') then Some ''@alice''
      else db (directory [(''u1'', ''alice'')]) ''u1'') = Some ''@alice''"
    by simp
  have without_at:
    "(if truthy_str (Some ''alice'') then Some ''alice''
      else db (directory [(''u1'', ''alice'')]) ''u1'') = Some ''alice''"
    by simp
  from unchanged_handle_not_rewritten [OF session uid with_at stored_at nonempty_at]
    unchanged_handle_not_rewritten [OF session uid without_at stored nonempty]
    session stored_at stored nonempty_at nonempty no_log
  show ?thesis by simp
qed

subsection \<open>C5\<close>

text \<open>
  C5: for an authenticated user with an effective handle (the override if it is not
  empty, the stored handle otherwise), once the bot identity is resolved and the stored
  handle read, if the update list the gateway returns has no entry whose sender
  username equals the normalized handle, \<open>checkUserTelegramSetup\<close> returns the
  ``Bot not started yet'' failure with the user id and the bot id. The calls made are
  the session check, the bot identity request if any, the read of the stored handle and
  the request for updates: no persistence update, and the user directory is unchanged.
\<close>

theorem no_matching_update_bot_not_started:
  assumes "auth_result e = Inr (Some uid)" and "uid \<noteq> []"
    and "bot_identity e = Inr botId" and "dbGet_error e = None"
    and "(if truthy_str username then username else db s uid) = Some h" and "h \<noteq> []"
    and "network e GET_UPDATES_URL None = Inr resp" and "ok resp"
    and "json_body resp = Inr data" and "get_prop data ''result'' = Inr (JArr updates)"
    and "\<forall>m\<in>set updates. sender_username m \<noteq> JStr (replaceAll_at h)"
  shows "checkUserTelegramSetup e username s =
     (Inr \<lparr>s_success = False, s_error = Some BOT_NOT_STARTED_ERROR, s_userId = Some uid,
            s_username = None, s_chatId = JUndefined, s_botId = botId\<rparr>,
      s\<lparr>trace := trace s @ Auth # bot_events e @ [DbGet uid, Fetch GET_UPDATES_URL None]\<rparr>)"
proof -
  from assms(5) have final: "js_or username (db s uid) = Some h"
    by (simp add: js_or_def)
  from assms(11) have "find (\<lambda>msg. sender_username msg = JStr (replaceAll_at h)) updates = None"
    by (simp add: find_None_iff)
  with chat_lookup_updates [OF assms(7-10), of "replaceAll_at h"]
  have lookup: "chat_lookup e (replaceAll_at h) = Inr JNull"
    by simp
  from assms(1-4,6) final lookup show ?thesis
    by (simp add: checkUserTelegramSetup_def run_simps step_defs Let_def)
qed

theorem no_matching_update_bot_not_started_witness:
  "auth_result (environment (Some ''u1'') (gateway [update_from ''alice'' (JNum 7)])) =
     Inr (Some ''u1'') \<and> ''u1'' \<noteq> [] \<and>
   bot_identity (environment (Some ''u1'') (gateway [update_from ''alice'' (JNum 7)])) =
     Inr (JStr ''aguera_bot'') \<and>
   dbGet_error (environment (Some ''u1'') (gateway [update_from ''alice'' (JNum 7)])) = None \<and>
   ''@bob'' \<noteq> [] \<and>
   network (environment (Some ''u1'') (gateway [update_from ''alice'' (JNum 7)]))
       GET_UPDATES_URL None =
     Inr \<lparr>ok = True,
           json_body = Inr (JObj [(''ok'', JBool True),
                                  (''result'', JArr [update_from ''alice'' (JNum 7)])])\<rparr> \<and>
   sender_username (update_from ''alice'' (JNum 7)) \<noteq> JStr (replaceAll_at ''@bob'') \<and>
   checkUserTelegramSetup (environment (Some ''u1'') (gateway [update_from ''alice'' (JNum 7)]))
       (Some ''@bob'') (directory [(''u1'', ''alice'')]) =
     (Inr \<lparr>s_success = False, s_error = Some BOT_NOT_STARTED_ERROR, s_userId = Some ''u1'',
            s_username = None, s_chatId = JUndefined, s_botId = JStr ''aguera_bot''\<rparr>,
      \<lparr>db = [''u1'' \<mapsto> ''alice''],
       trace = [Auth, Fetch GET_BOT_INFO_URL None, DbGet ''u1'', Fetch GET_UPDATES_URL None]\<rparr>)"
proof -
  let ?e = "environment (Some ''u1'') (gateway [update_from ''alice'' (JNum 7)])"
  let ?data = "JObj [(''ok'', JBool True), (''result'', JArr [update_from ''alice'' (JNum 7)])]"
  let ?resp = "\<lparr>ok = True, json_body = Inr ?data\<rparr>"
  have session: "auth_result ?e = Inr (Some ''u1'')"
    by (simp add: environment_def)
  have uid: "''u1'' \<noteq> []" by simp
  have bot: "bot_identity ?e = Inr (JStr ''aguera_bot'')"
    by (simp add: bot_identity_def resolveBotIdentity_def getBotUsername_def io_defs
        then_prop_def example_defs)
  have read: "dbGet_error ?e = None"
    by (simp add: environment_def)
  have handle:
    "(if truthy_str (Some ''@bob'') then Some ''@bob''
      else db (directory [(''u1'', ''alice'')]) ''u1'') = Some ''@bob''"
    by simp
  have nonempty: "''@bob'' \<noteq> []" by simp
  have net: "network ?e GET_UPDATES_URL None = Inr ?resp"
    by (simp add: environment_def gateway_def)
  have ok: "ok ?resp" by simp
  have body: "json_body ?resp = Inr ?data" by simp
  have list: "get_prop ?data ''result'' = Inr (JArr [update_from ''alice'' (JNum 7)])"
    by simp
  have other: "sender_username (update_from ''alice'' (JNum 7)) \<noteq> JStr (replaceAll_at ''@bob'')"
    by (simp add: sender_username_def update_from_def replaceAll_at_def)
  then have none: "\<forall>m\<in>set [update_from ''alice'' (JNum 7)].
      sender_username m \<noteq> JStr (replaceAll_at ''@bob'')"
    by simp
  have events: "bot_events ?e = [Fetch GET_BOT_INFO_URL None]"
    by (simp add: bot_events_def environment_def)
  from no_matching_update_bot_not_started
    [OF session uid bot read handle nonempty net ok body list none]
    session bot read net other events
  show ?thesis by (simp add: directory_def)
qed

subsection \<open>C6\<close>

text \<open>
  C6 as stated fails: the scan returns the first entry from the handle, so an update
  list that contains \<^verbatim>\<open>{message:{from:{username:"bob"}, chat:{id:"123"}}}\<close> after
  another entry from \<^verbatim>\<open>bob\<close>, in the chat \<^verbatim>\<open>"999"\<close>, gives the chat id
  \<^verbatim>\<open>"999"\<close>.
\<close>

theorem later_entry_counterexample:
  "db (directory [(''u1'', ''bob'')]) ''u1'' = Some ''bob'' \<and>
   update_from ''bob'' (JStr ''123'') \<in>
     set [update_from ''bob'' (JStr ''999''), update_from ''bob'' (JStr ''123'')] \<and>
   fst (checkUserTelegramSetup
          (environment (Some ''u1'')
             (gateway [update_from ''bob'' (JStr ''999''), update_from ''bob'' (JStr ''123'')]))
          None (directory [(''u1'', ''bob'')])) =
     Inr \<lparr>s_success = True, s_error = None, s_userId = Some ''u1'',
           s_username = Some ''bob'', s_chatId = JStr ''999'', s_botId = JStr ''aguera_bot''\<rparr> \<and>
   JStr ''999'' \<noteq> JStr ''123''"
  by (simp add: run_defs io_defs example_defs)

text \<open>
  C6, amended: end to end. The authenticated user has the stored handle \<^verbatim>\<open>"bob"\<close>;
  the bot identity resolves, a bot credential is configured, persistence raises no
  error, and the update list the gateway returns contains
  \<^verbatim>\<open>{message:{from:{username:"bob"}, chat:{id:"123"}}}\<close> as its first entry from
  \<^verbatim>\<open>bob\<close>. Then \<open>checkUserTelegramSetup\<close> without override returns the success
  result with chat id \<^verbatim>\<open>"123"\<close> and handle \<^verbatim>\<open>"bob"\<close>, without writing to the
  directory; and a following \<open>sendTelegramNotification\<close> of \<^verbatim>\<open>"hello"\<close>, the gateway
  accepting the message, posts \<^verbatim>\<open>{chat_id:"123", text:"hello"}\<close> as its last call and
  returns a success response.
\<close>

theorem end_to_end_bob:
  assumes "auth_result e = Inr (Some uid)" and "uid \<noteq> []"
    and "truthy_str (TELEGRAM_BOT_TOKEN e)"
    and "bot_identity e = Inr botId" and "dbGet_error e = None"
    and "db s uid = Some ''bob''"
    and "network e GET_UPDATES_URL None = Inr resp" and "ok resp"
    and "json_body resp = Inr data"
    and "get_prop data ''result'' = Inr (JArr (pre @ update_from ''bob'' (JStr ''123'') # post))"
    and "\<forall>m\<in>set pre. sender_username m \<noteq> JStr ''bob''"
    and "network e SEND_MESSAGE_URL (Some \<lparr>chat_id = JStr ''123'', body_text = ''hello''\<rparr>) =
           Inr sent"
    and "ok sent"
    and "s1 = s\<lparr>trace := trace s @ Auth # bot_events e @ [DbGet uid, Fetch GET_UPDATES_URL None]\<rparr>"
  shows "checkUserTelegramSetup e None s =
     (Inr \<lparr>s_success = True, s_error = None, s_userId = Some uid,
            s_username = Some ''bob'', s_chatId = JStr ''123'', s_botId = botId\<rparr>, s1) \<and>
   sendTelegramNotification e None ''hello'' s1 =
     (Inr \<lparr>a_success = True, a_error = None,
            a_data = \<lparr>d_success = True, d_error = None, d_botId = botId, d_username = None\<rparr>\<rparr>,
      s1\<lparr>trace := trace s1 @ Auth # bot_events e @
           [DbGet uid, Fetch GET_UPDATES_URL None,
            Fetch SEND_MESSAGE_URL (Some \<lparr>chat_id = JStr ''123'', body_text = ''hello''\<rparr>)]\<rparr>)"
proof -
  have norm: "replaceAll_at ''bob'' = ''bob''"
    by (simp add: replaceAll_at_def)
  from assms(11)
  have "find (\<lambda>msg. sender_username msg = JStr ''bob'')
          (pre @ update_from ''bob'' (JStr ''123'') # post) =
        Some (update_from ''bob'' (JStr ''123''))"
    by (intro find_first_match) (simp_all add: sender_update_from)
  with chat_lookup_updates [OF assms(7-10), of "''bob''"]
  have lookup: "chat_lookup e ''bob'' = Inr (JStr ''123'')"
    by (simp add: chat_id_update_from)
  from assms(12,13) have send: "send_outcome e (JStr ''123'') ''hello'' = Inr ()"
    by (simp add: send_outcome_def sendTelegramMessage_def io_defs)
  have check: "\<And>s0. db s0 uid = Some ''bob'' \<Longrightarrow> checkUserTelegramSetup e None s0 =
     (Inr \<lparr>s_success = True, s_error = None, s_userId = Some uid,
            s_username = Some ''bob'', s_chatId = JStr ''123'', s_botId = botId\<rparr>,
      s0\<lparr>trace := trace s0 @ Auth # bot_events e @ [DbGet uid, Fetch GET_UPDATES_URL None]\<rparr>)"
    using assms(1,2,4,5) lookup norm
    by (simp add: checkUserTelegramSetup_def run_simps step_defs Let_def js_or_def)
  from assms(14) assms(6) have stored: "db s1 uid = Some ''bob''"
    by simp
  from check [OF assms(6)] assms(14) have first: "checkUserTelegramSetup e None s =
     (Inr \<lparr>s_success = True, s_error = None, s_userId = Some uid,
            s_username = Some ''bob'', s_chatId = JStr ''123'', s_botId = botId\<rparr>, s1)"
    by simp
  from check [OF stored] assms(3) send have second: "sendTelegramNotification e None ''hello'' s1 =
     (Inr \<lparr>a_success = True, a_error = None,
            a_data = \<lparr>d_success = True, d_error = None, d_botId = botId, d_username = None\<rparr>\<rparr>,
      s1\<lparr>trace := trace s1 @ Auth # bot_events e @
           [DbGet uid, Fetch GET_UPDATES_URL None,
            Fetch SEND_MESSAGE_URL (Some \<lparr>chat_id = JStr ''123'', body_text = ''hello''\<rparr>)]\<rparr>)"
    by (simp add: sendTelegramNotification_def sendTelegramMessage_run
        try_catch_def await_def ret_def)
  from first second show ?thesis by simp
qed

theorem end_to_end_bob_witness:
  "auth_result (environment (Some ''u1'') (gateway [update_from ''bob'' (JStr ''123'')])) =
     Inr (Some ''u1'') \<and> ''u1'' \<noteq> [] \<and>
   truthy_str (TELEGRAM_BOT_TOKEN
     (environment (Some ''u1'') (gateway [update_from ''bob'' (JStr ''123'')]))) \<and>
   bot_identity (environment (Some ''u1'') (gateway [update_from ''bob'' (JStr ''123'')])) =
     Inr (JStr ''aguera_bot'') \<and>
   db (directory [(''u1'', ''bob'')]) ''u1'' = Some ''bob'' \<and>
   checkUserTelegramSetup (environment (Some ''u1'') (gateway [update_from ''bob'' (JStr ''123'')]))
       None (directory [(''u1'', ''bob'')]) =
     (Inr \<lparr>s_success = True, s_error = None, s_userId = Some ''u1'',
            s_username = Some ''bob'', s_chatId = JStr ''123'', s_botId = JStr ''aguera_bot''\<rparr>,
      \<lparr>db = [''u1'' \<mapsto> ''bob''],
       trace = [Auth, Fetch GET_BOT_INFO_URL None, DbGet ''u1'', Fetch GET_UPDATES_URL None]\<rparr>) \<and>
   sendTelegramNotification
       (environment (Some ''u1'') (gateway [update_from ''bob'' (JStr ''123'')])) None ''hello''
       \<lparr>db = [''u1'' \<mapsto> ''bob''],
        trace = [Auth, Fetch GET_BOT_INFO_URL None, DbGet ''u1'', Fetch GET_UPDATES_URL None]\<rparr> =
     (Inr \<lparr>a_success = True, a_error = None,
            a_data = \<lparr>d_success = True, d_error = None, d_botId = JStr ''aguera_bot'',
                       d_username = None\<rparr>\<rparr>,
      \<lparr>db = [''u1'' \<mapsto> ''bob''],
       trace = [Auth, Fetch GET_BOT_INFO_URL None, DbGet ''u1'', Fetch GET_UPDATES_URL None,
                Auth, Fetch GET_BOT_INFO_URL None, DbGet ''u1'', Fetch GET_UPDATES_URL None,
                Fetch SEND_MESSAGE_URL (Some \<lparr>chat_id = JStr ''123'', body_text = ''hello''\<rparr>)]\<rparr>)"
proof -
  let ?e = "environment (Some ''u1'') (gateway [update_from ''bob'' (JStr ''123'')])"
  let ?data = "JObj [(''ok'', JBool True), (''result'', JArr [update_from ''bob'' (JStr ''123'')])]"
  let ?resp = "\<lparr>ok = True, json_body = Inr ?data\<rparr>"
  let ?sent = "\<lparr>ok = True, json_body = Inr (JObj [(''ok'', JBool True)])\<rparr>"
  let ?s1 = "\<lparr>db = [''u1'' \<mapsto> ''bob''],
        trace = [Auth, Fetch GET_BOT_INFO_URL None, DbGet ''u1'', Fetch GET_UPDATES_URL None]\<rparr>"
  have session: "auth_result ?e = Inr (Some ''u1'')"
    by (simp add: environment_def)
  have uid: "''u1'' \<noteq> []" by simp
  have token: "truthy_str (TELEGRAM_BOT_TOKEN ?e)"
    by (simp add: environment_def)
  have bot: "bot_identity ?e = Inr (JStr ''aguera_bot'')"
    by (simp add: bot_identity_def resolveBotIdentity_def getBotUsername_def io_defs
        then_prop_def example_defs)
  have read: "dbGet_error ?e = None"
    by (simp add: environment_def)
  have stored: "db (directory [(''u1'', ''bob'')]) ''u1'' = Some ''bob''"
    by (simp add: directory_def)
  have net: "network ?e GET_UPDATES_URL None = Inr ?resp"
    by (simp add: environment_def gateway_def)
  have ok: "ok ?resp" by simp
  have body: "json_body ?resp = Inr ?data" by simp
  have list: "get_prop ?data ''result'' = Inr (JArr ([] @ update_from ''bob'' (JStr ''123'') # []))"
    by simp
  have first: "\<forall>m\<in>set []. sender_username m \<noteq> JStr ''bob''"
    by simp
  have post: "network ?e SEND_MESSAGE_URL
      (Some \<lparr>chat_id = JStr ''123'', body_text = ''hello''\<rparr>) = Inr ?sent"
    by (simp add: environment_def gateway_def)
  have accepted: "ok ?sent" by simp
  have events: "bot_events ?e = [Fetch GET_BOT_INFO_URL None]"
    by (simp add: bot_events_def environment_def)
  have s1: "?s1 = (directory [(''u1'', ''bob'')])\<lparr>trace := trace (directory [(''u1'', ''bob'')]) @
      Auth # bot_events ?e @ [DbGet ''u1'', Fetch GET_UPDATES_URL None]\<rparr>"
    by (simp add: events directory_def)
  from end_to_end_bob
    [OF session uid token bot read stored net ok body list first post accepted s1]
    session token bot stored events
  show ?thesis by simp
qed

subsection \<open>C7\<close>

text \<open>
  C7: when no bot credential is configured (the token is absent or empty),
  \<open>sendTelegramNotification\<close> returns the failure ``Telegram bot token not set''
  whatever its input, and leaves the state as it was: no event is logged, so neither
  \<open>checkUserTelegramSetup\<close> (which starts with the session check) nor the gateway was
  called.
\<close>

theorem notify_without_credential:
  "\<not> truthy_str (TELEGRAM_BOT_TOKEN e) \<Longrightarrow>
   sendTelegramNotification e username text s =
     (Inr \<lparr>a_success = False, a_error = Some ''Telegram bot token not set'',
            a_data = \<lparr>d_success = False, d_error = None,
                       d_botId = JUndefined, d_username = None\<rparr>\<rparr>, s)"
  by (simp add: sendTelegramNotification_def ret_def)

theorem notify_without_credential_witness:
  "\<not> truthy_str (TELEGRAM_BOT_TOKEN ((environment (Some ''u1'') (gateway []))\<lparr>TELEGRAM_BOT_TOKEN := None\<rparr>)) \<and>
   sendTelegramNotification ((environment (Some ''u1'') (gateway []))\<lparr>TELEGRAM_BOT_TOKEN := None\<rparr>)
       None ''hello'' (directory [(''u1'', ''bob'')]) =
     (Inr \<lparr>a_success = False, a_error = Some ''Telegram bot token not set'',
            a_data = \<lparr>d_success = False, d_error = None,
                       d_botId = JUndefined, d_username = None\<rparr>\<rparr>,
      directory [(''u1'', ''bob'')])"
  using notify_without_credential
    [of "(environment (Some ''u1'') (gateway []))\<lparr>TELEGRAM_BOT_TOKEN := None\<rparr>"
        None "''hello''" "directory [(''u1'', ''bob'')]"]
  by (simp add: environment_def)

subsection \<open>C8\<close>

text \<open>
  C8 as stated fails in its ``exactly when'': \<open>getChatIdByUsername\<close> also fails when
  no HTTP response arrives at all (the request itself fails), and when a 2xx response
  carries a body that is not JSON.
\<close>

theorem lookup_failure_counterexample:
  "network (environment (Some ''u1'') unreachable) GET_UPDATES_URL None =
     Inl (JsError ''fetch failed'') \<and>
   fst (getChatIdByUsername (environment (Some ''u1'') unreachable) ''bob'' (directory [])) =
     Inl (JsError ''fetch failed'') \<and>
   network (environment (Some ''u1'') garbled) GET_UPDATES_URL None =
     Inr \<lparr>ok = True, json_body = Inl (JsError ''Unexpected end of JSON input'')\<rparr> \<and>
   fst (getChatIdByUsername (environment (Some ''u1'') garbled) ''bob'' (directory [])) =
     Inl (JsError ''Unexpected end of JSON input'')"
  by (simp add: getChatIdByUsername_def io_defs example_defs garbled_def)

text \<open>
  C8, amended: \<open>getChatIdByUsername\<close> fails with ``Failed to retrieve bot updates''
  whenever the HTTP response is not 2xx; it also fails, with the error raised, when the
  request itself fails or the body of a 2xx response is not JSON. On a 2xx response
  whose body carries an update list, it returns \<^verbatim>\<open>null\<close> (a value, not an error)
  when no entry's \<^verbatim>\<open>message.from.username\<close> equals the handle, and otherwise what
  reading \<^verbatim>\<open>message.chat.id\<close> of the first such entry in list order gives: the chat
  id, or a \<^verbatim>\<open>TypeError\<close> when that message has no chat.
\<close>

theorem getChatIdByUsername_scan:
  "(\<forall>x. network e GET_UPDATES_URL None = Inl x \<longrightarrow>
        fst (getChatIdByUsername e username s) = Inl x) \<and>
   (\<forall>resp. network e GET_UPDATES_URL None = Inr resp \<longrightarrow> \<not> ok resp \<longrightarrow>
        fst (getChatIdByUsername e username s) = Inl (JsError ''Failed to retrieve bot updates'')) \<and>
   (\<forall>resp x. network e GET_UPDATES_URL None = Inr resp \<longrightarrow> ok resp \<longrightarrow>
        json_body resp = Inl x \<longrightarrow>
        fst (getChatIdByUsername e username s) = Inl x) \<and>
   (\<forall>resp data updates.
        network e GET_UPDATES_URL None = Inr resp \<longrightarrow> ok resp \<longrightarrow>
        json_body resp = Inr data \<longrightarrow> get_prop data ''result'' = Inr (JArr updates) \<longrightarrow>
        ((\<forall>m\<in>set updates. sender_username m \<noteq> JStr username) \<longrightarrow>
           fst (getChatIdByUsername e username s) = Inr JNull) \<and>
        (\<forall>pre m post.
           updates = pre @ m # post \<longrightarrow>
           (\<forall>v\<in>set pre. sender_username v \<noteq> JStr username) \<longrightarrow>
           sender_username m = JStr username \<longrightarrow>
           fst (getChatIdByUsername e username s) =
             get_prop (opt_prop (opt_prop m ''message'') ''chat'') ''id''))"
proof (intro conjI allI impI)
  fix x
  assume "network e GET_UPDATES_URL None = Inl x"
  then show "fst (getChatIdByUsername e username s) = Inl x"
    by (simp add: getChatIdByUsername_def io_defs)
next
  fix resp
  assume "network e GET_UPDATES_URL None = Inr resp" and "\<not> ok resp"
  then show "fst (getChatIdByUsername e username s) =
      Inl (JsError ''Failed to retrieve bot updates'')"
    by (simp add: getChatIdByUsername_def io_defs)
next
  fix resp x
  assume "network e GET_UPDATES_URL None = Inr resp" and "ok resp" and "json_body resp = Inl x"
  then show "fst (getChatIdByUsername e username s) = Inl x"
    by (simp add: getChatIdByUsername_def io_defs)
next
  fix resp data updates
  assume response: "network e GET_UPDATES_URL None = Inr resp" "ok resp"
    "json_body resp = Inr data" "get_prop data ''result'' = Inr (JArr updates)"
    and "\<forall>m\<in>set updates. sender_username m \<noteq> JStr username"
  then have "find (\<lambda>msg. sender_username msg = JStr username) updates = None"
    by (simp add: find_None_iff)
  with chat_lookup_updates [OF response, of username]
  show "fst (getChatIdByUsername e username s) = Inr JNull"
    by (simp add: getChatIdByUsername_run)
next
  fix resp data updates pre m post
  assume response: "network e GET_UPDATES_URL None = Inr resp" "ok resp"
    "json_body resp = Inr data" "get_prop data ''result'' = Inr (JArr updates)"
    and "updates = pre @ m # post"
    and "\<forall>v\<in>set pre. sender_username v \<noteq> JStr username"
    and "sender_username m = JStr username"
  then have "find (\<lambda>msg. sender_username msg = JStr username) updates = Some m"
    by (simp add: find_first_match)
  with chat_lookup_updates [OF response, of username]
  show "fst (getChatIdByUsername e username s) =
      get_prop (opt_prop (opt_prop m ''message'') ''chat'') ''id''"
    by (simp add: getChatIdByUsername_run)
qed

theorem getChatIdByUsername_scan_witness:
  "network (environment (Some ''u1'') unreachable) GET_UPDATES_URL None =
     Inl (JsError ''fetch failed'') \<and>
   fst (getChatIdByUsername (environment (Some ''u1'') unreachable) ''bob'' (directory [])) =
     Inl (JsError ''fetch failed'') \<and>
   network (environment (Some ''u1'')
       (gateway [update_from ''alice'' (JNum 7), update_from ''bob'' (JStr ''123''),
                 update_from ''bob'' (JStr ''999'')])) GET_UPDATES_URL None =
     Inr \<lparr>ok = True,
           json_body = Inr (JObj [(''ok'', JBool True),
             (''result'', JArr [update_from ''alice'' (JNum 7), update_from ''bob'' (JStr ''123''),
                                update_from ''bob'' (JStr ''999'')])])\<rparr> \<and>
   sender_username (update_from ''alice'' (JNum 7)) \<noteq> JStr ''bob'' \<and>
   sender_username (update_from ''bob'' (JStr ''123'')) = JStr ''bob'' \<and>
   fst (getChatIdByUsername (environment (Some ''u1'')
       (gateway [update_from ''alice'' (JNum 7), update_from ''bob'' (JStr ''123''),
                 update_from ''bob'' (JStr ''999'')])) ''bob'' (directory [])) =
     Inr (JStr ''123'') \<and>
   sender_username (update_from ''alice'' (JNum 7)) \<noteq> JStr ''carol'' \<and>
   sender_username (update_from ''bob'' (JStr ''123'')) \<noteq> JStr ''carol'' \<and>
   sender_username (update_from ''bob'' (JStr ''999'')) \<noteq> JStr ''carol'' \<and>
   fst (getChatIdByUsername (environment (Some ''u1'')
       (gateway [update_from ''alice'' (JNum 7), update_from ''bob'' (JStr ''123''),
                 update_from ''bob'' (JStr ''999'')])) ''carol'' (directory [])) =
     Inr JNull"
proof -
  let ?down = "environment (Some ''u1'') unreachable"
  let ?updates = "[update_from ''alice'' (JNum 7), update_from ''bob'' (JStr ''123''),
                 update_from ''bob'' (JStr ''999'')]"
  let ?e = "environment (Some ''u1'') (gateway ?updates)"
  let ?data = "JObj [(''ok'', JBool True), (''result'', JArr ?updates)]"
  let ?resp = "\<lparr>ok = True, json_body = Inr ?data\<rparr>"
  have down: "network ?down GET_UPDATES_URL None = Inl (JsError ''fetch failed'')"
    by (simp add: environment_def unreachable_def)
  have failed: "fst (getChatIdByUsername ?down ''bob'' (directory [])) =
      Inl (JsError ''fetch failed'')"
    using getChatIdByUsername_scan [of ?down "''bob''" "directory []"] down by blast
  have net: "network ?e GET_UPDATES_URL None = Inr ?resp"
    by (simp add: environment_def gateway_def)
  have ok: "ok ?resp" and body: "json_body ?resp = Inr ?data"
    and list: "get_prop ?data ''result'' = Inr (JArr ?updates)"
    by simp_all
  have alice: "sender_username (update_from ''alice'' (JNum 7)) \<noteq> JStr ''bob''"
    and bob: "sender_username (update_from ''bob'' (JStr ''123'')) = JStr ''bob''"
    and carol: "sender_username (update_from ''alice'' (JNum 7)) \<noteq> JStr ''carol''"
      "sender_username (update_from ''bob'' (JStr ''123'')) \<noteq> JStr ''carol''"
      "sender_username (update_from ''bob'' (JStr ''999'')) \<noteq> JStr ''carol''"
    by (simp_all add: sender_update_from)
  have split: "?updates = [update_from ''alice'' (JNum 7)] @ update_from ''bob'' (JStr ''123'') #
      [update_from ''bob'' (JStr ''999'')]"
    by simp
  from alice have before: "\<forall>v\<in>set [update_from ''alice'' (JNum 7)].
      sender_username v \<noteq> JStr ''bob''"
    by simp
  have "fst (getChatIdByUsername ?e ''bob'' (directory [])) =
      get_prop (opt_prop (opt_prop (update_from ''bob'' (JStr ''123'')) ''message'') ''chat'') ''id''"
    using getChatIdByUsername_scan [of ?e "''bob''" "directory []"] net ok body list split
      before bob
    by blast
  then have found: "fst (getChatIdByUsername ?e ''bob'' (directory [])) = Inr (JStr ''123'')"
    by (simp add: chat_id_update_from)
  from carol have nobody: "\<forall>m\<in>set ?updates. sender_username m \<noteq> JStr ''carol''"
    by simp
  have missing: "fst (getChatIdByUsername ?e ''carol'' (directory [])) = Inr JNull"
    using getChatIdByUsername_scan [of ?e "''carol''" "directory []"] net ok body list nobody
    by blast
  from down failed net alice bob found carol missing show ?thesis
    by simp
qed

subsection \<open>C9\<close>

text \<open>
  C9: after every run of \<open>checkUserTelegramSetup\<close> that returns a success result, the
  handle stored for the result's user in the state the run leaves is the normalized
  handle the result carries.
\<close>

theorem success_store_in_sync:
  assumes "fst (checkUserTelegramSetup e username s) = Inr r" and "s_success r"
  shows "\<exists>uid h. s_userId r = Some uid \<and> s_username r = Some h \<and>
           db (snd (checkUserTelegramSetup e username s)) uid = Some h"
proof -
  have "case checkUserTelegramSetup e username s of
          (Inl x, s') \<Rightarrow> True
        | (Inr r, s') \<Rightarrow> s_success r \<longrightarrow>
            (\<exists>uid h. s_userId r = Some uid \<and> s_username r = Some h \<and> db s' uid = Some h)"
    by (simp add: checkUserTelegramSetup_def run_simps step_defs Let_def
        split: sum.splits option.splits)
  with assms show ?thesis
    by (cases "checkUserTelegramSetup e username s") simp
qed

theorem success_store_in_sync_witness:
  "fst (checkUserTelegramSetup
          (environment (Some ''u1'') (gateway [update_from ''bob'' (JStr ''123'')]))
          (Some ''@bob'') (directory [])) =
     Inr \<lparr>s_success = True, s_error = None, s_userId = Some ''u1'',
           s_username = Some ''bob'', s_chatId = JStr ''123'', s_botId = JStr ''aguera_bot''\<rparr> \<and>
   db (directory []) ''u1'' = None \<and>
   db (snd (checkUserTelegramSetup
          (environment (Some ''u1'') (gateway [update_from ''bob'' (JStr ''123'')]))
          (Some ''@bob'') (directory []))) ''u1'' = Some ''bob''"
proof -
  let ?e = "environment (Some ''u1'') (gateway [update_from ''bob'' (JStr ''123'')])"
  let ?r = "\<lparr>s_success = True, s_error = None, s_userId = Some ''u1'',
           s_username = Some ''bob'', s_chatId = JStr ''123'', s_botId = JStr ''aguera_bot''\<rparr>"
  have ran: "fst (checkUserTelegramSetup ?e (Some ''@bob'') (directory [])) = Inr ?r"
    by (simp add: run_bob)
  have success: "s_success ?r" by simp
  have before: "db (directory []) ''u1'' = None"
    by (simp add: directory_def)
  from success_store_in_sync [OF ran success]
  have "db (snd (checkUserTelegramSetup ?e (Some ''@bob'') (directory []))) ''u1'' = Some ''bob''"
    by simp
  with ran before show ?thesis by simp
qed

subsection \<open>C10\<close>

text \<open>
  C10: for an authenticated user and an override that is not empty and consists of
  \<^verbatim>\<open>@\<close> characters only, \<open>checkUserTelegramSetup\<close> never returns the missing-handle
  failure. The emptiness test of line 79 sees the override as given; once the bot
  identity is resolved and the stored handle read, the run requests the updates and
  scans them for the empty handle: it ends as that scan does. It throws what the scan
  throws, returns ``Bot not started yet'' when the scan finds no truthy chat id, and
  otherwise (persistence accepting the write) succeeds with the empty string as handle.
\<close>

theorem at_only_override_proceeds:
  assumes "auth_result e = Inr (Some uid)" and "uid \<noteq> []"
    and "h \<noteq> []" and "\<forall>c\<in>set h. c = CHR ''@''"
  shows
   "(\<forall>r. fst (checkUserTelegramSetup e (Some h) s) = Inr r \<longrightarrow>
        s_error r \<noteq> Some MISSING_USERNAME_ERROR) \<and>
    (\<forall>botId. bot_identity e = Inr botId \<longrightarrow> dbGet_error e = None \<longrightarrow>
       (\<exists>evs. trace (snd (checkUserTelegramSetup e (Some h) s)) =
              trace s @ Auth # bot_events e @ [DbGet uid, Fetch GET_UPDATES_URL None] @ evs) \<and>
       (\<forall>x. chat_lookup e [] = Inl x \<longrightarrow>
          fst (checkUserTelegramSetup e (Some h) s) = Inl x) \<and>
       (\<forall>c. chat_lookup e [] = Inr c \<longrightarrow> \<not> truthy c \<longrightarrow>
          fst (checkUserTelegramSetup e (Some h) s) =
            Inr \<lparr>s_success = False, s_error = Some BOT_NOT_STARTED_ERROR,
                  s_userId = Some uid, s_username = None, s_chatId = JUndefined,
                  s_botId = botId\<rparr>) \<and>
       (\<forall>c. chat_lookup e [] = Inr c \<longrightarrow> truthy c \<longrightarrow> dbUpdate_error e = None \<longrightarrow>
          fst (checkUserTelegramSetup e (Some h) s) =
            Inr \<lparr>s_success = True, s_error = None, s_userId = Some uid,
                  s_username = Some [], s_chatId = c, s_botId = botId\<rparr>))"
proof -
  from assms(3) have final: "js_or (Some h) d = Some h" for d
    by (simp add: js_or_def)
  from assms(4) have norm: "replaceAll_at h = []"
    by (rule replaceAll_at_only_ats)
  have never: "\<forall>r. fst (checkUserTelegramSetup e (Some h) s) = Inr r \<longrightarrow>
        s_error r \<noteq> Some MISSING_USERNAME_ERROR"
    using assms(1-3) final norm
    by (auto simp add: checkUserTelegramSetup_def run_simps step_defs Let_def
        MISSING_USERNAME_ERROR_def BOT_NOT_STARTED_ERROR_def
        split: sum.splits option.splits if_splits)
  have proceeds: "\<forall>botId. bot_identity e = Inr botId \<longrightarrow> dbGet_error e = None \<longrightarrow>
       (\<exists>evs. trace (snd (checkUserTelegramSetup e (Some h) s)) =
              trace s @ Auth # bot_events e @ [DbGet uid, Fetch GET_UPDATES_URL None] @ evs) \<and>
       (\<forall>x. chat_lookup e [] = Inl x \<longrightarrow>
          fst (checkUserTelegramSetup e (Some h) s) = Inl x) \<and>
       (\<forall>c. chat_lookup e [] = Inr c \<longrightarrow> \<not> truthy c \<longrightarrow>
          fst (checkUserTelegramSetup e (Some h) s) =
            Inr \<lparr>s_success = False, s_error = Some BOT_NOT_STARTED_ERROR,
                  s_userId = Some uid, s_username = None, s_chatId = JUndefined,
                  s_botId = botId\<rparr>) \<and>
       (\<forall>c. chat_lookup e [] = Inr c \<longrightarrow> truthy c \<longrightarrow> dbUpdate_error e = None \<longrightarrow>
          fst (checkUserTelegramSetup e (Some h) s) =
            Inr \<lparr>s_success = True, s_error = None, s_userId = Some uid,
                  s_username = Some [], s_chatId = c, s_botId = botId\<rparr>)"
    using assms(1-3) final norm
    by (auto simp add: checkUserTelegramSetup_def run_simps step_defs Let_def
        split: sum.splits option.splits)
  from never proceeds show ?thesis by blast
qed

theorem at_only_override_proceeds_witness:
  "auth_result (environment (Some ''u1'') (gateway [update_from ''bob'' (JStr ''123'')])) =
     Inr (Some ''u1'') \<and> ''u1'' \<noteq> [] \<and> ''@'' \<noteq> [] \<and>
   bot_identity (environment (Some ''u1'') (gateway [update_from ''bob'' (JStr ''123'')])) =
     Inr (JStr ''aguera_bot'') \<and>
   dbGet_error (environment (Some ''u1'') (gateway [update_from ''bob'' (JStr ''123'')])) = None \<and>
   chat_lookup (environment (Some ''u1'') (gateway [update_from ''bob'' (JStr ''123'')])) [] =
     Inr JNull \<and>
   \<not> truthy JNull \<and>
   fst (checkUserTelegramSetup
          (environment (Some ''u1'') (gateway [update_from ''bob'' (JStr ''123'')]))
          (Some ''@'') (directory [(''u1'', ''bob'')])) =
     Inr \<lparr>s_success = False, s_error = Some BOT_NOT_STARTED_ERROR,
           s_userId = Some ''u1'', s_username = None, s_chatId = JUndefined,
           s_botId = JStr ''aguera_bot''\<rparr> \<and>
   BOT_NOT_STARTED_ERROR \<noteq> MISSING_USERNAME_ERROR \<and>
   (\<exists>evs. trace (snd (checkUserTelegramSetup
          (environment (Some ''u1'') (gateway [update_from ''bob'' (JStr ''123'')]))
          (Some ''@'') (directory [(''u1'', ''bob'')]))) =
      [Auth, Fetch GET_BOT_INFO_URL None, DbGet ''u1'', Fetch GET_UPDATES_URL None] @ evs)"
proof -
  let ?e = "environment (Some ''u1'') (gateway [update_from ''bob'' (JStr ''123'')])"
  let ?s = "directory [(''u1'', ''bob'')]"
  have session: "auth_result ?e = Inr (Some ''u1'')"
    by (simp add: environment_def)
  have uid: "''u1'' \<noteq> []" and nonempty: "''@'' \<noteq> []"
    and ats: "\<forall>c\<in>set ''@''. c = CHR ''@''"
    by simp_all
  have bot: "bot_identity ?e = Inr (JStr ''aguera_bot'')"
    by (simp add: bot_identity_def resolveBotIdentity_def getBotUsername_def io_defs
        then_prop_def example_defs)
  have read: "dbGet_error ?e = None"
    by (simp add: environment_def)
  have scan: "chat_lookup ?e [] = Inr JNull"
    by (simp add: chat_lookup_def getChatIdByUsername_def sender_username_def io_defs
        example_defs)
  have falsy: "\<not> truthy JNull" by simp
  have events: "bot_events ?e = [Fetch GET_BOT_INFO_URL None]"
    by (simp add: bot_events_def environment_def)
  have log: "trace ?s = []"
    by (simp add: directory_def)
  have differ: "BOT_NOT_STARTED_ERROR \<noteq> MISSING_USERNAME_ERROR"
    by (simp add: BOT_NOT_STARTED_ERROR_def MISSING_USERNAME_ERROR_def)
  note claim = at_only_override_proceeds [OF session uid nonempty ats, of ?s]
  from claim bot read scan falsy
  have result: "fst (checkUserTelegramSetup ?e (Some ''@'') ?s) =
     Inr \<lparr>s_success = False, s_error = Some BOT_NOT_STARTED_ERROR,
           s_userId = Some ''u1'', s_username = None, s_chatId = JUndefined,
           s_botId = JStr ''aguera_bot''\<rparr>"
    by blast
  from claim bot read
  have "\<exists>evs. trace (snd (checkUserTelegramSetup ?e (Some ''@'') ?s)) =
      trace ?s @ Auth # bot_events ?e @ [DbGet ''u1'', Fetch GET_UPDATES_URL None] @ evs"
    by blast
  then have requested: "\<exists>evs. trace (snd (checkUserTelegramSetup ?e (Some ''@'') ?s)) =
      [Auth, Fetch GET_BOT_INFO_URL None, DbGet ''u1'', Fetch GET_UPDATES_URL None] @ evs"
    by (simp add: events log)
  from session bot read scan result differ requested show ?thesis
    by simp
qed

end
